theory Spec2Isabelle
  imports Main "HOL-Library.Char_ord"
begin

section \<open>The IAM enumerator of main.go\<close>

text \<open>
  The program of \<^verbatim>\<open>src/main.go\<close> asks an IAM client about the current user and
  prints a report. Everything it does is an effect: a line on standard output, a token
  read from standard input, a request to the IAM client. The model threads a
  \<open>world\<close> through the code: the trace of the effects so far, in the order they
  happened, and the input not yet read. A nil pointer dereference is a panic, an
  outcome of its own.
\<close>

subsection \<open>Responses of the IAM client\<close>

text \<open>
  The SDK's response structs, with the fields main.go reads. A Go pointer field
  (\<^verbatim>\<open>*string\<close>, \<^verbatim>\<open>*time.Time\<close>, \<^verbatim>\<open>*types.User\<close>) is an option: \<open>None\<close> is nil.
  \<^verbatim>\<open>time.Time\<close> is the type parameter \<open>'t\<close>; what \<^verbatim>\<open>%v\<close> prints for it (the
  \<^verbatim>\<open>String\<close> method of the time package) is the parameter \<open>ts\<close> of the functions
  below. Fields named alike in two Go structs carry the struct's name here.
\<close>

type_synonym error = string \<comment> \<open>a non-nil Go error, as the text \<^verbatim>\<open>%v\<close> prints for it\<close>

record 't User =
  UserName :: "string option"
  User_Arn :: "string option"
  UserId :: "string option"
  User_CreateDate :: "'t option"

record 't GetUserOutput =
  User :: "'t User option"

record 't Group =
  GroupName :: "string option"
  Group_Arn :: "string option"
  GroupId :: "string option"
  Group_CreateDate :: "'t option"

record 't ListGroupsForUserOutput =
  Groups :: "'t Group list"

record AttachedPolicy =
  PolicyName :: "string option"
  PolicyArn :: "string option"

record ListAttachedUserPoliciesOutput =
  AttachedPolicies :: "AttachedPolicy list"

record ListUserPoliciesOutput =
  PolicyNames :: "string list"

record 't PolicyVersion =
  VersionId :: "string option"
  Version_CreateDate :: "'t option"
  Document :: "string option"

record 't ListPolicyVersionsOutput =
  Versions :: "'t PolicyVersion list"

record 't GetPolicyVersionOutput =
  PolicyVersion :: "'t PolicyVersion option"

text \<open>
  The client: what each operation answers, an error or a response. The program makes
  each request at most once in a run, so a function of the request's arguments is as
  general as a client with a state.
\<close>

record 't iam_client =
  iam_GetUser :: "error + 't GetUserOutput"
  iam_ListGroupsForUser :: "string \<Rightarrow> error + 't ListGroupsForUserOutput"
  iam_ListAttachedUserPolicies :: "string \<Rightarrow> error + ListAttachedUserPoliciesOutput"
  iam_ListUserPolicies :: "string \<Rightarrow> error + ListUserPoliciesOutput"
  iam_ListPolicyVersions :: "string \<Rightarrow> error + 't ListPolicyVersionsOutput"
  iam_GetPolicyVersion :: "string \<Rightarrow> string \<Rightarrow> error + 't GetPolicyVersionOutput"

subsection \<open>Effects\<close>

datatype request =
    GetUserInput
  | ListGroupsForUserInput string
  | ListAttachedUserPoliciesInput string
  | ListUserPoliciesInput string
  | ListPolicyVersionsInput string
  | GetPolicyVersionInput string string

datatype event =
    Stdout string \<comment> \<open>one call of fmt.Print, fmt.Println or fmt.Printf, with its text\<close>
  | Stdin string \<comment> \<open>one call of fmt.Scanln, with what it stored\<close>
  | Request request \<comment> \<open>one request sent to the IAM client\<close>

record world =
  trace :: "event list"
  stdin :: "string list"

datatype outcome =
    Return world \<comment> \<open>the function returned\<close>
  | Panic world \<comment> \<open>a nil pointer was dereferenced\<close>

fun world_of :: "outcome \<Rightarrow> world" where
  "world_of (Return w) = w"
| "world_of (Panic w) = w"

fun andThen :: "outcome \<Rightarrow> (world \<Rightarrow> outcome) \<Rightarrow> outcome" where
  "andThen (Return w) f = f w"
| "andThen (Panic w) f = Panic w"

definition emit :: "event \<Rightarrow> world \<Rightarrow> world" where
  "emit e w = w\<lparr>trace := trace w @ [e]\<rparr>"

definition TAB :: char where "TAB = CHR 0x09"
definition NL :: char where "NL = CHR 0x0A"

definition fmt_Print :: "string \<Rightarrow> world \<Rightarrow> world" where
  "fmt_Print s = emit (Stdout s)"

definition fmt_Println :: "string \<Rightarrow> world \<Rightarrow> world" where
  "fmt_Println s = emit (Stdout (s @ [NL]))"

text \<open>
  Every format of main.go is a fixed text followed by \<^verbatim>\<open>%v\n\<close>, with one operand:
  \<open>fmt_Printf label v\<close> is \<^verbatim>\<open>fmt.Printf(label + "%v\n", v)\<close>.
\<close>

definition fmt_Printf :: "string \<Rightarrow> string \<Rightarrow> world \<Rightarrow> world" where
  "fmt_Printf label v = emit (Stdout (label @ v @ [NL]))"

text \<open>
  \<^verbatim>\<open>fmt.Printf(label + "%v\n", *p)\<close>: the operand is evaluated first, so a nil \<open>p\<close>
  panics before anything is printed.
\<close>

definition Printf_deref :: "string \<Rightarrow> string option \<Rightarrow> world \<Rightarrow> outcome" where
  "Printf_deref label p w =
     (case p of None \<Rightarrow> Panic w | Some v \<Rightarrow> Return (fmt_Printf label v w))"

text \<open>
  \<^verbatim>\<open>fmt.Scanln(&input)\<close> on a variable that holds the empty string: \<open>stdin\<close> lists
  what the successive calls store. At the end of the input the call fails, main.go
  ignores the error, and the variable keeps the empty string.
\<close>

definition fmt_Scanln :: "world \<Rightarrow> string \<times> world" where
  "fmt_Scanln w =
     (case stdin w of
        [] \<Rightarrow> ([], emit (Stdin []) w)
      | x # rest \<Rightarrow> (x, emit (Stdin x) (w\<lparr>stdin := rest\<rparr>)))"

definition MAJOR_SEPARATOR :: string where
  "MAJOR_SEPARATOR = ''=====================================''"

definition MINOR_SEPARATOR :: string where
  "MINOR_SEPARATOR = ''-------------------------------------''"

subsection \<open>Percent-decoding\<close>

text \<open>
  \<^verbatim>\<open>url.QueryUnescape\<close> and \<^verbatim>\<open>url.QueryEscape\<close> belong to Go's package net/url,
  which is not among the files of the repository. Bytes are read as numbers below 256:
  \<^verbatim>\<open>c >> 4\<close> is \<open>div 16\<close>, \<^verbatim>\<open>c & 15\<close> is \<open>mod 16\<close>, and \<^verbatim>\<open>h << 4 | l\<close> with
  both operands below 16 is \<open>h * 16 + l\<close>.
\<close>

type_synonym EscapeError = string

definition ishex :: "char \<Rightarrow> bool" where
  "ishex c \<longleftrightarrow>
     (CHR ''0'' \<le> c \<and> c \<le> CHR ''9'') \<or> (CHR ''a'' \<le> c \<and> c \<le> CHR ''f'') \<or>
     (CHR ''A'' \<le> c \<and> c \<le> CHR ''F'')"

definition unhex :: "char \<Rightarrow> nat" where
  "unhex c =
     (if CHR ''0'' \<le> c \<and> c \<le> CHR ''9'' then of_char c - of_char (CHR ''0'')
      else if CHR ''a'' \<le> c \<and> c \<le> CHR ''f'' then of_char c - of_char (CHR ''a'') + 10
      else if CHR ''A'' \<le> c \<and> c \<le> CHR ''F'' then of_char c - of_char (CHR ''A'') + 10
      else 0)"

text \<open>
  Modelled from the spec: the percent-decoding of the policy document is Go's
  \<^verbatim>\<open>url.QueryUnescape\<close>, that is \<^verbatim>\<open>unescape(s, encodeQueryComponent)\<close> of net/url.
  Its first loop counts the \<^verbatim>\<open>%\<close> signs, notes a \<^verbatim>\<open>+\<close> and rejects a \<^verbatim>\<open>%\<close> not
  followed by two hexadecimal digits, with at most three bytes from the \<^verbatim>\<open>%\<close> on as
  the error.
\<close>

fun unescape_scan :: "string \<Rightarrow> nat \<Rightarrow> bool \<Rightarrow> EscapeError + nat \<times> bool" where
  "unescape_scan [] n hasPlus = Inr (n, hasPlus)"
| "unescape_scan (c # s) n hasPlus =
     (if c = CHR ''%'' then
        (case s of
           a # b # rest \<Rightarrow>
             if ishex a \<and> ishex b then unescape_scan rest (n + 1) hasPlus
             else Inl (take 3 (c # s))
         | _ \<Rightarrow> Inl (take 3 (c # s)))
      else if c = CHR ''+'' then unescape_scan s n True
      else unescape_scan s n hasPlus)"

text \<open>
  Modelled from the spec: the second loop of \<^verbatim>\<open>unescape\<close>, which writes the decoded
  bytes: the byte of the two digits for an escape, a space for \<^verbatim>\<open>+\<close>, any other byte
  as it is. It runs on a text the first loop accepted.
\<close>

fun unescape_write :: "string \<Rightarrow> string" where
  "unescape_write [] = []"
| "unescape_write (c # s) =
     (if c = CHR ''%'' then
        (case s of
           a # b # rest \<Rightarrow> char_of (unhex a * 16 + unhex b) # unescape_write rest
         | _ \<Rightarrow> [])
      else if c = CHR ''+'' then CHR '' '' # unescape_write s
      else c # unescape_write s)"

text \<open>
  Modelled from the spec: \<^verbatim>\<open>url.QueryUnescape\<close>. A text with no escape and no
  \<^verbatim>\<open>+\<close> is returned as it is.
\<close>

definition QueryUnescape :: "string \<Rightarrow> EscapeError + string" where
  "QueryUnescape s =
     (case unescape_scan s 0 False of
        Inl e \<Rightarrow> Inl e
      | Inr (n, hasPlus) \<Rightarrow> if n = 0 \<and> \<not> hasPlus then Inr s else Inr (unescape_write s))"

definition upperhex :: string where
  "upperhex = ''0123456789ABCDEF''"

definition shouldEscape :: "char \<Rightarrow> bool" where
  "shouldEscape c \<longleftrightarrow>
     \<not> ((CHR ''a'' \<le> c \<and> c \<le> CHR ''z'') \<or> (CHR ''A'' \<le> c \<and> c \<le> CHR ''Z'') \<or>
        (CHR ''0'' \<le> c \<and> c \<le> CHR ''9'') \<or>
        c \<in> {CHR ''-'', CHR ''_'', CHR ''.'', CHR ''~''})"

text \<open>
  Modelled from the spec: URL-encoding is Go's \<^verbatim>\<open>url.QueryEscape\<close>, the encoder of
  the package whose decoder the program calls: a space becomes \<^verbatim>\<open>+\<close>, a letter, a
  digit and \<^verbatim>\<open>- _ . ~\<close> stay, every other byte becomes \<^verbatim>\<open>%\<close> and its two upper-case
  hexadecimal digits.
\<close>

definition escape_byte :: "char \<Rightarrow> string" where
  "escape_byte c =
     (if c = CHR '' '' then ''+''
      else if shouldEscape c then
        [CHR ''%'', upperhex ! (of_char c div 16), upperhex ! (of_char c mod 16)]
      else [c])"

definition QueryEscape :: "string \<Rightarrow> string" where
  "QueryEscape s = concat (map escape_byte s)"

text \<open>
  Modelled from the spec: URL-encoding as RFC 3986 has it, which is how IAM encodes the
  documents it returns: as above, but a space becomes \<^verbatim>\<open>%20\<close>.
\<close>

definition percent_byte :: "char \<Rightarrow> string" where
  "percent_byte c =
     (if shouldEscape c then
        [CHR ''%'', upperhex ! (of_char c div 16), upperhex ! (of_char c mod 16)]
      else [c])"

definition PercentEncode :: "string \<Rightarrow> string" where
  "PercentEncode s = concat (map percent_byte s)"

subsection \<open>The wrappers of the client's operations\<close>

text \<open>
  Each wrapper sends one request and, when the client answers with an error, prints the
  error itself before handing it to the caller.
\<close>

definition GetUserDetails ::
  "'t iam_client \<Rightarrow> world \<Rightarrow> (error + 't GetUserOutput) \<times> world" where
  "GetUserDetails iamClient w0 =
     (let w = emit (Request GetUserInput) w0 in
      case iam_GetUser iamClient of
        Inl err \<Rightarrow>
          (Inl err, fmt_Printf ''Couldn't get details for the user. Here's why: '' err w)
      | Inr userDetails \<Rightarrow> (Inr userDetails, w))"

definition ListUserGroups ::
  "'t iam_client \<Rightarrow> string \<Rightarrow> world \<Rightarrow> (error + 't ListGroupsForUserOutput) \<times> world" where
  "ListUserGroups iamClient username w0 =
     (let w = emit (Request (ListGroupsForUserInput username)) w0 in
      case iam_ListGroupsForUser iamClient username of
        Inl err \<Rightarrow>
          (Inl err, fmt_Printf ''Couldn't get the groups for the user. Here's why: '' err w)
      | Inr userGroups \<Rightarrow> (Inr userGroups, w))"

definition ListAttachedUserPolicies ::
  "'t iam_client \<Rightarrow> string \<Rightarrow> world \<Rightarrow> (error + ListAttachedUserPoliciesOutput) \<times> world" where
  "ListAttachedUserPolicies iamClient username w0 =
     (let w = emit (Request (ListAttachedUserPoliciesInput username)) w0 in
      case iam_ListAttachedUserPolicies iamClient username of
        Inl err \<Rightarrow>
          (Inl err,
           fmt_Printf ''Couldn't get the policies attached to the user. Here's why: '' err w)
      | Inr userPolicies \<Rightarrow> (Inr userPolicies, w))"

definition ListInlineUserPolicies ::
  "'t iam_client \<Rightarrow> string \<Rightarrow> world \<Rightarrow> (error + ListUserPoliciesOutput) \<times> world" where
  "ListInlineUserPolicies iamClient username w0 =
     (let w = emit (Request (ListUserPoliciesInput username)) w0 in
      case iam_ListUserPolicies iamClient username of
        Inl err \<Rightarrow>
          (Inl err,
           fmt_Printf ''Couldn't get the inline policies attached to the user. Here's why: ''
             err w)
      | Inr userPolicies \<Rightarrow> (Inr userPolicies, w))"

definition ListLatestPolicyVersions ::
  "'t iam_client \<Rightarrow> string \<Rightarrow> world \<Rightarrow> (error + 't ListPolicyVersionsOutput) \<times> world" where
  "ListLatestPolicyVersions iamClient policyArn w0 =
     (let w = emit (Request (ListPolicyVersionsInput policyArn)) w0 in
      case iam_ListPolicyVersions iamClient policyArn of
        Inl err \<Rightarrow>
          (Inl err,
           fmt_Printf ''Couldn't get details for the policy version. Here's why: '' err w)
      | Inr policyVersions \<Rightarrow> (Inr policyVersions, w))"

definition GetPolicyVersionDetails ::
  "'t iam_client \<Rightarrow> string \<Rightarrow> string \<Rightarrow> world \<Rightarrow>
     (error + 't GetPolicyVersionOutput) \<times> world" where
  "GetPolicyVersionDetails iamClient policyArn versionId w0 =
     (let w = emit (Request (GetPolicyVersionInput policyArn versionId)) w0 in
      case iam_GetPolicyVersion iamClient policyArn versionId of
        Inl err \<Rightarrow>
          (Inl err,
           fmt_Printf ''Couldn't get details for the policy version. Here's why: '' err w)
      | Inr policyVersionDetails \<Rightarrow> (Inr policyVersionDetails, w))"

subsection \<open>The loops over the lists of a response\<close>

text \<open>The body of each \<^verbatim>\<open>for ... range\<close> of main.go, once for every element in order.\<close>

fun range_Groups :: "('t \<Rightarrow> string) \<Rightarrow> 't Group list \<Rightarrow> world \<Rightarrow> outcome" where
  "range_Groups ts [] w = Return w"
| "range_Groups ts (grp # rest) w =
     andThen (Printf_deref (TAB # ''Group name: '') (GroupName grp) w) (\<lambda>w.
     andThen (Printf_deref (TAB # ''Group ARN: '') (Group_Arn grp) w) (\<lambda>w.
     andThen (Printf_deref (TAB # ''Group ID: '') (GroupId grp) w) (\<lambda>w.
     andThen (Printf_deref (TAB # ''Created on: '') (map_option ts (Group_CreateDate grp)) w)
       (\<lambda>w.
     range_Groups ts rest (fmt_Println MINOR_SEPARATOR w)))))"

fun range_AttachedPolicies :: "AttachedPolicy list \<Rightarrow> world \<Rightarrow> outcome" where
  "range_AttachedPolicies [] w = Return w"
| "range_AttachedPolicies (policy # rest) w =
     andThen (Printf_deref (TAB # ''Policy name: '') (PolicyName policy) w) (\<lambda>w.
     andThen (Printf_deref (TAB # ''Policy ARN: '') (PolicyArn policy) w) (\<lambda>w.
     range_AttachedPolicies rest (fmt_Println MINOR_SEPARATOR w)))"

fun range_PolicyNames :: "string list \<Rightarrow> world \<Rightarrow> world" where
  "range_PolicyNames [] w = w"
| "range_PolicyNames (policy # rest) w =
     range_PolicyNames rest
       (fmt_Println MINOR_SEPARATOR (fmt_Printf (TAB # ''Policy name: '') policy w))"

fun range_Versions :: "('t \<Rightarrow> string) \<Rightarrow> 't PolicyVersion list \<Rightarrow> world \<Rightarrow> outcome" where
  "range_Versions ts [] w = Return w"
| "range_Versions ts (version # rest) w =
     andThen (Printf_deref (TAB # ''Version ID: '') (VersionId version) w) (\<lambda>w.
     andThen
       (Printf_deref (TAB # ''Created on: '') (map_option ts (Version_CreateDate version)) w)
       (\<lambda>w.
     range_Versions ts rest (fmt_Println [] w)))"

subsection \<open>The interactive branch\<close>

text \<open>
  \<^verbatim>\<open>fmt.Println("Getting details for version ", versionId)\<close> puts a space between its
  two operands, after the one the first operand ends with.
\<close>

definition PromptUserForPolicyVersionDetails ::
  "('t \<Rightarrow> string) \<Rightarrow> 't iam_client \<Rightarrow> world \<Rightarrow> outcome" where
  "PromptUserForPolicyVersionDetails ts iamClient w0 =
     (let w = fmt_Print ''Do you want the details of any policy's version? (y/n): '' w0;
          (input, w) = fmt_Scanln w in
      if input = ''y'' then
        (let w = fmt_Print ''Enter the ARN of the policy: '' w;
             (policyArn, w) = fmt_Scanln w;
             w = fmt_Println ''Available versions: '' w;
             (r, w) = ListLatestPolicyVersions iamClient policyArn w in
         case r of
           Inl err \<Rightarrow> Return (fmt_Println ''Couldn't get details for the policy version'' w)
         | Inr policyVersions \<Rightarrow>
             andThen (range_Versions ts (Versions policyVersions) w) (\<lambda>w.
               let w = fmt_Print ''Enter the version ID to retrieve: '' w;
                   (versionId, w) = fmt_Scanln w;
                   w = fmt_Println (''Getting details for version '' @ '' '' @ versionId) w;
                   (r, w) = GetPolicyVersionDetails iamClient policyArn versionId w in
               case r of
                 Inl err \<Rightarrow>
                   Return (fmt_Println ''Couldn't get details for the policy version'' w)
               | Inr policyVersionDetails \<Rightarrow>
                   (let w = fmt_Println MAJOR_SEPARATOR w;
                        w = fmt_Println ''Policy version details:'' w in
                    andThen
                      (Printf_deref (TAB # ''Version ID: '')
                         (Option.bind (PolicyVersion policyVersionDetails) VersionId) w) (\<lambda>w.
                    andThen
                      (Printf_deref (TAB # ''Created on: '')
                         (map_option ts
                            (Option.bind (PolicyVersion policyVersionDetails)
                               Version_CreateDate)) w) (\<lambda>w.
                    case Option.bind (PolicyVersion policyVersionDetails) Document of
                      None \<Rightarrow> Panic w
                    | Some document \<Rightarrow>
                        (case QueryUnescape document of
                           Inl err \<Rightarrow>
                             Return (fmt_Println ''Couldn't encode the document. Exiting...'' w)
                         | Inr decodedDocument \<Rightarrow>
                             Return
                               (fmt_Println MAJOR_SEPARATOR
                                  (fmt_Printf (TAB # ''Document: '' @ [NL]) decodedDocument
                                     w))))))))
      else Return w)"

subsection \<open>main\<close>

text \<open>
  \<open>sdkConfig\<close> is what \<^verbatim>\<open>config.LoadDefaultConfig\<close> gives: an error, or the
  configuration, which stands here for the client \<^verbatim>\<open>iam.NewFromConfig\<close> builds from
  it. Every \<^verbatim>\<open>return\<close> of main, early or last, is \<open>Return\<close>.
\<close>

definition main :: "('t \<Rightarrow> string) \<Rightarrow> error + 't iam_client \<Rightarrow> world \<Rightarrow> outcome" where
  "main ts sdkConfig w0 =
     (case sdkConfig of
        Inl err \<Rightarrow>
          Return
            (fmt_Println err
               (fmt_Println
                  ''Couldn't load default configuration. Have you set up your AWS account?''
                  w0))
      | Inr iamClient \<Rightarrow>
          (let w = fmt_Println ''Getting details for the current user...'' w0;
               w = fmt_Println MAJOR_SEPARATOR w;
               (r, w) = GetUserDetails iamClient w in
           case r of
             Inl err \<Rightarrow>
               Return (fmt_Println ''Couldn't get details for the current user. Exiting...'' w)
           | Inr currentUserDetails \<Rightarrow>
               (let w = fmt_Println ''User details:'' w in
                andThen
                  (Printf_deref (TAB # ''Username: '')
                     (Option.bind (User currentUserDetails) UserName) w) (\<lambda>w.
                andThen
                  (Printf_deref (TAB # ''User ARN: '')
                     (Option.bind (User currentUserDetails) User_Arn) w) (\<lambda>w.
                andThen
                  (Printf_deref (TAB # ''User ID: '')
                     (Option.bind (User currentUserDetails) UserId) w) (\<lambda>w.
                andThen
                  (Printf_deref (TAB # ''Created on: '')
                     (map_option ts (Option.bind (User currentUserDetails) User_CreateDate)) w)
                  (\<lambda>w.
                let w = fmt_Println MAJOR_SEPARATOR w;
                    w = fmt_Println MAJOR_SEPARATOR w;
                    w = fmt_Println ''Getting groups for the current user...'' w;
                    w = fmt_Println MAJOR_SEPARATOR w in
                case Option.bind (User currentUserDetails) UserName of
                  None \<Rightarrow> Panic w
                | Some username \<Rightarrow>
                    (let (r, w) = ListUserGroups iamClient username w in
                     case r of
                       Inl err \<Rightarrow>
                         Return
                           (fmt_Println ''Couldn't get groups for the current user. Exiting...''
                              w)
                     | Inr userGroups \<Rightarrow>
                         andThen (range_Groups ts (Groups userGroups) w) (\<lambda>w.
                         let w = fmt_Println MAJOR_SEPARATOR w;
                             w = fmt_Println
                                   ''Getting attached policies for the current user...'' w;
                             w = fmt_Println MAJOR_SEPARATOR w;
                             (r, w) = ListAttachedUserPolicies iamClient username w in
                         case r of
                           Inl err \<Rightarrow>
                             Return
                               (fmt_Println
                                  ''Couldn't get attached policies for the current user. Exiting...''
                                  w)
                         | Inr userPolicies \<Rightarrow>
                             andThen
                               (range_AttachedPolicies (AttachedPolicies userPolicies) w) (\<lambda>w.
                             andThen (PromptUserForPolicyVersionDetails ts iamClient w) (\<lambda>w.
                             let w = fmt_Println MAJOR_SEPARATOR w;
                                 w = fmt_Println
                                       ''Getting inline policies for the current user...'' w;
                                 w = fmt_Println MAJOR_SEPARATOR w;
                                 (r, w) = ListInlineUserPolicies iamClient username w in
                             case r of
                               Inl err \<Rightarrow>
                                 Return
                                   (fmt_Println
                                      ''Couldn't get inline policies for the current user. Exiting...''
                                      w)
                             | Inr userInlinePolicies \<Rightarrow>
                                 Return
                                   (fmt_Println ''All done!''
                                      (range_PolicyNames (PolicyNames userInlinePolicies)
                                         w)))))))))))))"

section \<open>What the report is expected to hold\<close>

text \<open>
  The events a run is compared with: a printed line, a printed field, the block of one
  list element, and which pointer fields of a response are not nil. Nothing below is
  used by the definitions of the program above.
\<close>

definition line :: "string \<Rightarrow> event" where
  "line s = Stdout (s @ [NL])"

definition item :: "string \<Rightarrow> string \<Rightarrow> event" where
  "item label v = Stdout (TAB # label @ v @ [NL])"

definition user_present :: "'t User \<Rightarrow> bool" where
  "user_present u \<longleftrightarrow>
     UserName u \<noteq> None \<and> User_Arn u \<noteq> None \<and> UserId u \<noteq> None \<and> User_CreateDate u \<noteq> None"

definition group_present :: "'t Group \<Rightarrow> bool" where
  "group_present g \<longleftrightarrow>
     GroupName g \<noteq> None \<and> Group_Arn g \<noteq> None \<and> GroupId g \<noteq> None \<and>
     Group_CreateDate g \<noteq> None"

definition policy_present :: "AttachedPolicy \<Rightarrow> bool" where
  "policy_present p \<longleftrightarrow> PolicyName p \<noteq> None \<and> PolicyArn p \<noteq> None"

definition version_present :: "'t PolicyVersion \<Rightarrow> bool" where
  "version_present v \<longleftrightarrow> VersionId v \<noteq> None \<and> Version_CreateDate v \<noteq> None"

definition user_block :: "('t \<Rightarrow> string) \<Rightarrow> 't User \<Rightarrow> event list" where
  "user_block ts u =
     [line ''User details:'',
      item ''Username: '' (the (UserName u)),
      item ''User ARN: '' (the (User_Arn u)),
      item ''User ID: '' (the (UserId u)),
      item ''Created on: '' (ts (the (User_CreateDate u))),
      line MAJOR_SEPARATOR]"

definition group_block :: "('t \<Rightarrow> string) \<Rightarrow> 't Group \<Rightarrow> event list" where
  "group_block ts g =
     [item ''Group name: '' (the (GroupName g)),
      item ''Group ARN: '' (the (Group_Arn g)),
      item ''Group ID: '' (the (GroupId g)),
      item ''Created on: '' (ts (the (Group_CreateDate g))),
      line MINOR_SEPARATOR]"

definition policy_block :: "AttachedPolicy \<Rightarrow> event list" where
  "policy_block p =
     [item ''Policy name: '' (the (PolicyName p)),
      item ''Policy ARN: '' (the (PolicyArn p)),
      line MINOR_SEPARATOR]"

definition inline_block :: "string \<Rightarrow> event list" where
  "inline_block name = [item ''Policy name: '' name, line MINOR_SEPARATOR]"

definition version_block :: "('t \<Rightarrow> string) \<Rightarrow> 't PolicyVersion \<Rightarrow> event list" where
  "version_block ts v =
     [item ''Version ID: '' (the (VersionId v)),
      item ''Created on: '' (ts (the (Version_CreateDate v))),
      line []]"

definition token :: "string list \<Rightarrow> string" where
  "token inp = (case inp of [] \<Rightarrow> [] | x # rest \<Rightarrow> x)"

fun failure_messages :: "event list \<Rightarrow> string list" where
  "failure_messages [] = []"
| "failure_messages (Stdout s # tr) =
     (if take 8 s = ''Couldn't'' then s # failure_messages tr else failure_messages tr)"
| "failure_messages (e # tr) = failure_messages tr"

subsection \<open>The sections of the report\<close>

text \<open>
  Each section opens with a header, which ends with the request it sends; the blocks of
  the list elements follow. The last event of a complete report is the closing line.
\<close>

definition groups_header :: "string \<Rightarrow> event list" where
  "groups_header username =
     [line MAJOR_SEPARATOR, line ''Getting groups for the current user...'',
      line MAJOR_SEPARATOR, Request (ListGroupsForUserInput username)]"

definition attached_header :: "string \<Rightarrow> event list" where
  "attached_header username =
     [line MAJOR_SEPARATOR, line ''Getting attached policies for the current user...'',
      line MAJOR_SEPARATOR, Request (ListAttachedUserPoliciesInput username)]"

definition inline_header :: "string \<Rightarrow> event list" where
  "inline_header username =
     [line MAJOR_SEPARATOR, line ''Getting inline policies for the current user...'',
      line MAJOR_SEPARATOR, Request (ListUserPoliciesInput username)]"

definition user_header :: "event list" where
  "user_header =
     [line ''Getting details for the current user...'', line MAJOR_SEPARATOR,
      Request GetUserInput]"

definition section_user :: "('t \<Rightarrow> string) \<Rightarrow> 't User \<Rightarrow> event list" where
  "section_user ts u = user_header @ user_block ts u"

definition section_groups :: "('t \<Rightarrow> string) \<Rightarrow> string \<Rightarrow> 't Group list \<Rightarrow> event list" where
  "section_groups ts username gs = groups_header username @ concat (map (group_block ts) gs)"

definition section_attached :: "string \<Rightarrow> AttachedPolicy list \<Rightarrow> event list" where
  "section_attached username ps = attached_header username @ concat (map policy_block ps)"

definition section_inline :: "string \<Rightarrow> string list \<Rightarrow> event list" where
  "section_inline username names = inline_header username @ concat (map inline_block names)"

definition closing :: event where
  "closing = line ''All done!''"

text \<open>
  The events of the interactive function: the prompt and the answer; the questions and
  the request that lead to the list of versions; the two lines of a failed request; the
  list and the request for one version; the details of that version and its decoded
  document.
\<close>

definition prompt_events :: "string \<Rightarrow> event list" where
  "prompt_events input =
     [Stdout ''Do you want the details of any policy's version? (y/n): '', Stdin input]"

definition versions_intro :: "string \<Rightarrow> event list" where
  "versions_intro arn =
     prompt_events ''y'' @
     [Stdout ''Enter the ARN of the policy: '', Stdin arn, line ''Available versions: '',
      Request (ListPolicyVersionsInput arn)]"

definition version_failure :: "error \<Rightarrow> event list" where
  "version_failure err =
     [line (''Couldn't get details for the policy version. Here's why: '' @ err),
      line ''Couldn't get details for the policy version'']"

definition versions_listing ::
  "('t \<Rightarrow> string) \<Rightarrow> string \<Rightarrow> 't PolicyVersion list \<Rightarrow> string \<Rightarrow> event list" where
  "versions_listing ts arn vs vid =
     versions_intro arn @ concat (map (version_block ts) vs) @
     [Stdout ''Enter the version ID to retrieve: '', Stdin vid,
      line (''Getting details for version  '' @ vid),
      Request (GetPolicyVersionInput arn vid)]"

definition version_details :: "('t \<Rightarrow> string) \<Rightarrow> 't PolicyVersion \<Rightarrow> event list" where
  "version_details ts pv =
     [line MAJOR_SEPARATOR, line ''Policy version details:'',
      item ''Version ID: '' (the (VersionId pv)),
      item ''Created on: '' (ts (the (Version_CreateDate pv)))]"

definition document_lines :: "string \<Rightarrow> event list" where
  "document_lines doc = [Stdout (TAB # ''Document: '' @ [NL] @ doc @ [NL]), line MAJOR_SEPARATOR]"

definition section_versions ::
  "('t \<Rightarrow> string) \<Rightarrow> string \<Rightarrow> 't PolicyVersion list \<Rightarrow> string \<Rightarrow> 't PolicyVersion \<Rightarrow> string \<Rightarrow>
     event list" where
  "section_versions ts arn vs vid pv decoded =
     versions_listing ts arn vs vid @ version_details ts pv @ document_lines decoded"

subsection \<open>Runs\<close>

text \<open>
  A run of the program starts with nothing printed. The events a loop or the interactive
  function adds are those of its run from the empty trace. An event is benign when a
  later stage could have produced it without sending a request about the user and
  without printing the closing line.
\<close>

abbreviation run :: "('t \<Rightarrow> string) \<Rightarrow> 't iam_client \<Rightarrow> string list \<Rightarrow> outcome" where
  "run ts c inp \<equiv> main ts (Inr c) \<lparr>trace = [], stdin = inp\<rparr>"

definition groups_out :: "('t \<Rightarrow> string) \<Rightarrow> 't Group list \<Rightarrow> event list" where
  "groups_out ts gs = trace (world_of (range_Groups ts gs \<lparr>trace = [], stdin = []\<rparr>))"

definition policies_out :: "AttachedPolicy list \<Rightarrow> event list" where
  "policies_out ps = trace (world_of (range_AttachedPolicies ps \<lparr>trace = [], stdin = []\<rparr>))"

definition versions_out :: "('t \<Rightarrow> string) \<Rightarrow> 't PolicyVersion list \<Rightarrow> event list" where
  "versions_out ts vs = trace (world_of (range_Versions ts vs \<lparr>trace = [], stdin = []\<rparr>))"

definition prompt_run :: "('t \<Rightarrow> string) \<Rightarrow> 't iam_client \<Rightarrow> string list \<Rightarrow> outcome" where
  "prompt_run ts c inp = PromptUserForPolicyVersionDetails ts c \<lparr>trace = [], stdin = inp\<rparr>"

fun returns :: "outcome \<Rightarrow> bool" where
  "returns (Return w) = True"
| "returns (Panic w) = False"

fun version_request :: "request \<Rightarrow> bool" where
  "version_request (ListPolicyVersionsInput arn) = True"
| "version_request (GetPolicyVersionInput arn vid) = True"
| "version_request r = False"

fun benign :: "event \<Rightarrow> bool" where
  "benign (Stdout s) = (Stdout s \<noteq> closing)"
| "benign (Stdin s) = True"
| "benign (Request r) = version_request r"

definition outcome_of :: "bool \<Rightarrow> world \<Rightarrow> outcome" where
  "outcome_of ok w = (if ok then Return w else Panic w)"



text \<open>
  The pointer fields the program dereferences are all there: in the user record, and in
  every response the client can give.
\<close>

definition user_complete :: "'t GetUserOutput \<Rightarrow> bool" where
  "user_complete d \<longleftrightarrow> (case User d of None \<Rightarrow> False | Some u \<Rightarrow> user_present u)"

definition document_complete :: "'t GetPolicyVersionOutput \<Rightarrow> bool" where
  "document_complete po \<longleftrightarrow>
     (case PolicyVersion po of
        None \<Rightarrow> False
      | Some pv \<Rightarrow> version_present pv \<and> Document pv \<noteq> None)"

definition client_complete :: "'t iam_client \<Rightarrow> bool" where
  "client_complete c \<longleftrightarrow>
     (case iam_GetUser c of Inl e \<Rightarrow> True | Inr d \<Rightarrow> user_complete d) \<and>
     (\<forall>username. case iam_ListGroupsForUser c username of
        Inl e \<Rightarrow> True | Inr gso \<Rightarrow> list_all group_present (Groups gso)) \<and>
     (\<forall>username. case iam_ListAttachedUserPolicies c username of
        Inl e \<Rightarrow> True | Inr apo \<Rightarrow> list_all policy_present (AttachedPolicies apo)) \<and>
     (\<forall>arn. case iam_ListPolicyVersions c arn of
        Inl e \<Rightarrow> True | Inr vo \<Rightarrow> list_all version_present (Versions vo)) \<and>
     (\<forall>arn vid. case iam_GetPolicyVersion c arn vid of
        Inl e \<Rightarrow> True | Inr po \<Rightarrow> document_complete po)"

subsection \<open>A sample client\<close>

text \<open>
  The user alice of the specification's scenario, with two groups, one attached policy
  and no inline policy; times are numbers, printed as that many strokes.
\<close>

definition strokes :: "nat \<Rightarrow> string" where
  "strokes t = replicate t (CHR ''|'')"

definition alice :: "nat User" where
  "alice =
     \<lparr>UserName = Some ''alice'', User_Arn = Some ''arn:aws:iam::1:user/alice'',
      UserId = Some ''AIDA1'', User_CreateDate = Some 3\<rparr>"

definition alice_groups :: "nat Group list" where
  "alice_groups =
     [\<lparr>GroupName = Some ''admins'', Group_Arn = Some ''arn:aws:iam::1:group/admins'',
       GroupId = Some ''AGPA1'', Group_CreateDate = Some 1\<rparr>,
      \<lparr>GroupName = Some ''devs'', Group_Arn = Some ''arn:aws:iam::1:group/devs'',
       GroupId = Some ''AGPA2'', Group_CreateDate = Some 2\<rparr>]"

definition alice_policies :: "AttachedPolicy list" where
  "alice_policies =
     [\<lparr>PolicyName = Some ''ReadOnly'', PolicyArn = Some ''arn:aws:iam::1:policy/ReadOnly''\<rparr>]"

definition alice_version :: "nat PolicyVersion" where
  "alice_version =
     \<lparr>VersionId = Some ''v1'', Version_CreateDate = Some 2,
      Document = Some ''%7B%22Version%22%3A+1%7D''\<rparr>"

definition alice_client :: "nat iam_client" where
  "alice_client =
     \<lparr>iam_GetUser = Inr \<lparr>User = Some alice\<rparr>,
      iam_ListGroupsForUser = (\<lambda>username. Inr \<lparr>Groups = alice_groups\<rparr>),
      iam_ListAttachedUserPolicies = (\<lambda>username. Inr \<lparr>AttachedPolicies = alice_policies\<rparr>),
      iam_ListUserPolicies = (\<lambda>username. Inr \<lparr>PolicyNames = []\<rparr>),
      iam_ListPolicyVersions = (\<lambda>policyArn. Inr \<lparr>Versions = [alice_version]\<rparr>),
      iam_GetPolicyVersion =
        (\<lambda>policyArn versionId. Inr \<lparr>PolicyVersion = Some alice_version\<rparr>)\<rparr>"

text \<open>
  Variants of the sample client: the list of versions is refused; one version is
  refused; the document of the version is not a valid encoding; a field of the user, of
  a group, of an attached policy is nil; the user has no group and no attached policy.
\<close>

definition no_versions_client :: "nat iam_client" where
  "no_versions_client =
     alice_client\<lparr>iam_ListPolicyVersions := (\<lambda>policyArn. Inl ''NoSuchEntity'')\<rparr>"

definition no_version_client :: "nat iam_client" where
  "no_version_client =
     alice_client\<lparr>iam_GetPolicyVersion := (\<lambda>policyArn versionId. Inl ''NoSuchEntity'')\<rparr>"

definition bad_document_client :: "nat iam_client" where
  "bad_document_client =
     alice_client
       \<lparr>iam_GetPolicyVersion :=
          (\<lambda>policyArn versionId.
             Inr \<lparr>PolicyVersion = Some (alice_version\<lparr>Document := Some ''%zz''\<rparr>)\<rparr>)\<rparr>"

definition nil_user_client :: "nat iam_client" where
  "nil_user_client =
     alice_client\<lparr>iam_GetUser := Inr \<lparr>User = Some (alice\<lparr>UserId := None\<rparr>)\<rparr>\<rparr>"

definition nil_group_client :: "nat iam_client" where
  "nil_group_client =
     alice_client
       \<lparr>iam_ListGroupsForUser :=
          (\<lambda>username.
             Inr \<lparr>Groups =
                    [\<lparr>GroupName = Some ''admins'', Group_Arn = None, GroupId = Some ''AGPA1'',
                      Group_CreateDate = Some 1\<rparr>]\<rparr>)\<rparr>"

definition nil_policy_client :: "nat iam_client" where
  "nil_policy_client =
     alice_client
       \<lparr>iam_ListAttachedUserPolicies :=
          (\<lambda>username.
             Inr \<lparr>AttachedPolicies = [\<lparr>PolicyName = None, PolicyArn = Some ''arn''\<rparr>]\<rparr>)\<rparr>"

definition bare_client :: "nat iam_client" where
  "bare_client =
     alice_client
       \<lparr>iam_ListGroupsForUser := (\<lambda>username. Inr \<lparr>Groups = []\<rparr>),
        iam_ListAttachedUserPolicies := (\<lambda>username. Inr \<lparr>AttachedPolicies = []\<rparr>)\<rparr>"

section \<open>Properties\<close>

lemmas io_defs =
  emit_def fmt_Print_def fmt_Println_def fmt_Printf_def fmt_Scanln_def Printf_deref_def

lemmas ev_defs = line_def item_def

subsection \<open>The answer at the prompt\<close>

text \<open>
  Claim C3. Whatever the first read of the interactive function stores, if it is not
  exactly \<open>y\<close> the function returns in the world that read left: the prompt and the
  read are its only events, so no ARN and no version ID is read, no request about
  policy versions is sent and nothing about versions is printed.
\<close>

theorem prompt_answer_not_y_skips_branch:
  assumes "fmt_Scanln
             (fmt_Print ''Do you want the details of any policy's version? (y/n): '' w0) =
           (input, w1)"
    and "input \<noteq> ''y''"
  shows "PromptUserForPolicyVersionDetails ts iamClient w0 = Return w1 \<and>
         trace w1 =
           trace w0 @
           [Stdout ''Do you want the details of any policy's version? (y/n): '', Stdin input] \<and>
         stdin w1 = tl (stdin w0)"
  using assms
  by (auto simp: PromptUserForPolicyVersionDetails_def io_defs split: list.splits)

theorem prompt_answer_not_y_skips_branch_witness:
  "PromptUserForPolicyVersionDetails strokes alice_client \<lparr>trace = [], stdin = [''yes'', ''arn'']\<rparr> =
     Return
       \<lparr>trace =
          [Stdout ''Do you want the details of any policy's version? (y/n): '', Stdin ''yes''],
        stdin = [''arn'']\<rparr>"
  using prompt_answer_not_y_skips_branch
    [of "\<lparr>trace = [], stdin = [''yes'', ''arn'']\<rparr>" "''yes''"
        "\<lparr>trace =
            [Stdout ''Do you want the details of any policy's version? (y/n): '',
             Stdin ''yes''],
          stdin = [''arn'']\<rparr>"
        strokes alice_client]
  by (simp add: io_defs)

subsection \<open>A failing first query\<close>

text \<open>
  Claim C1, as the code has it. When the query for the current user fails, main sends
  no other request and reads nothing: after the two opening lines and the request, the
  wrapper prints the error and main prints that it exits. These are two failure
  messages, not one.
\<close>

theorem getuser_failure_ends_run:
  assumes "iam_GetUser iamClient = Inl err"
  shows "main ts (Inr iamClient) \<lparr>trace = [], stdin = inp\<rparr> =
           Return
             \<lparr>trace =
                [line ''Getting details for the current user...'',
                 line MAJOR_SEPARATOR,
                 Request GetUserInput,
                 line (''Couldn't get details for the user. Here's why: '' @ err),
                 line ''Couldn't get details for the current user. Exiting...''],
              stdin = inp\<rparr> \<and>
         length
           (failure_messages
              (trace (world_of (main ts (Inr iamClient) \<lparr>trace = [], stdin = inp\<rparr>)))) = 2"
  using assms
  by (simp add: main_def GetUserDetails_def io_defs ev_defs MAJOR_SEPARATOR_def)

theorem getuser_failure_ends_run_witness:
  "main strokes (Inr (alice_client\<lparr>iam_GetUser := Inl ''AccessDenied''\<rparr>))
     \<lparr>trace = [], stdin = [''y'']\<rparr> =
   Return
     \<lparr>trace =
        [line ''Getting details for the current user...'',
         line MAJOR_SEPARATOR,
         Request GetUserInput,
         line ''Couldn't get details for the user. Here's why: AccessDenied'',
         line ''Couldn't get details for the current user. Exiting...''],
      stdin = [''y'']\<rparr>"
  using getuser_failure_ends_run
    [of "alice_client\<lparr>iam_GetUser := Inl ''AccessDenied''\<rparr>" "''AccessDenied''" strokes "[''y'']"]
  by simp

text \<open>
  The claim as stated, with exactly one failure message, fails on the sample client
  once its first query is refused: the run prints two.
\<close>

theorem one_failure_message_counterexample:
  "iam_GetUser (alice_client\<lparr>iam_GetUser := Inl ''AccessDenied''\<rparr>) = Inl ''AccessDenied'' \<and>
   length
     (failure_messages
        (trace
           (world_of
              (main strokes (Inr (alice_client\<lparr>iam_GetUser := Inl ''AccessDenied''\<rparr>))
                 \<lparr>trace = [], stdin = []\<rparr>)))) \<noteq> 1"
  by (simp add: main_def GetUserDetails_def io_defs MAJOR_SEPARATOR_def)

subsection \<open>Decoding an encoded document\<close>

lemma upperhex_digit:
  assumes "n < 16"
  shows "ishex (upperhex ! n) \<and> unhex (upperhex ! n) = n"
proof -
  have "\<forall>k\<in>set [0..<16]. ishex (upperhex ! k) \<and> unhex (upperhex ! k) = k"
    by code_simp
  with assms show ?thesis by simp
qed

lemma of_char_div_16: "(of_char c :: nat) div 16 < 16"
proof -
  have "(of_char c :: nat) < 256" by simp
  then show ?thesis by linarith
qed

lemma escaped_signs: "shouldEscape (CHR ''%'')" "shouldEscape (CHR ''+'')"
  by (simp_all add: shouldEscape_def less_eq_char_def)

lemma unescape_scan_escape_byte:
  "unescape_scan (escape_byte c @ t) n hasPlus =
     unescape_scan t
       (if c \<noteq> CHR '' '' \<and> shouldEscape c then n + 1 else n)
       (hasPlus \<or> c = CHR '' '')"
  using upperhex_digit [OF of_char_div_16 [of c]] upperhex_digit [of "of_char c mod 16"]
    escaped_signs
  by (auto simp: escape_byte_def)

lemma unescape_write_escape_byte:
  "unescape_write (escape_byte c @ t) = c # unescape_write t"
  using upperhex_digit [OF of_char_div_16 [of c]] upperhex_digit [of "of_char c mod 16"]
    escaped_signs
  by (auto simp: escape_byte_def)

lemma unescape_scan_QueryEscape:
  "unescape_scan (QueryEscape s) n hasPlus =
     Inr (n + length (filter (\<lambda>c. c \<noteq> CHR '' '' \<and> shouldEscape c) s),
          hasPlus \<or> CHR '' '' \<in> set s)"
  by (induction s arbitrary: n hasPlus)
    (auto simp: QueryEscape_def unescape_scan_escape_byte)

lemma unescape_write_QueryEscape: "unescape_write (QueryEscape s) = s"
  by (induction s) (simp_all add: QueryEscape_def unescape_write_escape_byte)

lemma QueryEscape_plain:
  "filter (\<lambda>c. c \<noteq> CHR '' '' \<and> shouldEscape c) s = [] \<Longrightarrow> CHR '' '' \<notin> set s \<Longrightarrow>
   QueryEscape s = s"
  by (induction s) (auto simp: QueryEscape_def escape_byte_def split: if_splits)

lemma unescape_scan_percent_byte:
  "unescape_scan (percent_byte c @ t) n hasPlus =
     unescape_scan t (if shouldEscape c then n + 1 else n) hasPlus"
  using upperhex_digit [OF of_char_div_16 [of c]] upperhex_digit [of "of_char c mod 16"]
    escaped_signs
  by (auto simp: percent_byte_def)

lemma unescape_write_percent_byte:
  "unescape_write (percent_byte c @ t) = c # unescape_write t"
  using upperhex_digit [OF of_char_div_16 [of c]] upperhex_digit [of "of_char c mod 16"]
    escaped_signs
  by (auto simp: percent_byte_def)

lemma unescape_scan_PercentEncode:
  "unescape_scan (PercentEncode s) n hasPlus =
     Inr (n + length (filter shouldEscape s), hasPlus)"
  by (induction s arbitrary: n hasPlus)
    (auto simp: PercentEncode_def unescape_scan_percent_byte)

lemma unescape_write_PercentEncode: "unescape_write (PercentEncode s) = s"
  by (induction s) (simp_all add: PercentEncode_def unescape_write_percent_byte)

lemma PercentEncode_plain: "filter shouldEscape s = [] \<Longrightarrow> PercentEncode s = s"
  by (induction s) (auto simp: PercentEncode_def percent_byte_def split: if_splits)

text \<open>
  Claim C4. Encoding any text, a JSON document among them, and decoding the result with
  \<open>QueryUnescape\<close>, as the program does before it prints a policy document, succeeds
  and gives the text back. This holds for the encoder of the decoder's own package and
  for RFC 3986 percent-encoding.
\<close>

theorem QueryUnescape_round_trip:
  "QueryUnescape (QueryEscape s) = Inr s \<and> QueryUnescape (PercentEncode s) = Inr s"
  by (simp add: QueryUnescape_def unescape_scan_QueryEscape unescape_write_QueryEscape
      QueryEscape_plain unescape_scan_PercentEncode unescape_write_PercentEncode
      PercentEncode_plain)

subsection \<open>The loops\<close>

text \<open>
  A loop over elements whose fields are all there prints the block of each element, in
  order, and returns. In general it adds the events of its run from the empty trace,
  all of them benign, and returns exactly when no field is nil.
\<close>

lemma range_Groups_present:
  "list_all group_present gs \<Longrightarrow>
   range_Groups ts gs w = Return (w\<lparr>trace := trace w @ concat (map (group_block ts) gs)\<rparr>)"
  by (induction gs arbitrary: w) (auto simp: group_present_def group_block_def io_defs ev_defs)

lemma range_AttachedPolicies_present:
  "list_all policy_present ps \<Longrightarrow>
   range_AttachedPolicies ps w = Return (w\<lparr>trace := trace w @ concat (map policy_block ps)\<rparr>)"
  by (induction ps arbitrary: w) (auto simp: policy_present_def policy_block_def io_defs ev_defs)

lemma range_Versions_present:
  "list_all version_present vs \<Longrightarrow>
   range_Versions ts vs w = Return (w\<lparr>trace := trace w @ concat (map (version_block ts) vs)\<rparr>)"
  by (induction vs arbitrary: w) (auto simp: version_present_def version_block_def io_defs ev_defs)

lemma range_PolicyNames_trace:
  "range_PolicyNames ns w = w\<lparr>trace := trace w @ concat (map inline_block ns)\<rparr>"
  by (induction ns arbitrary: w) (auto simp: inline_block_def io_defs ev_defs)

lemma andThen_outcome_of [simp]:
  "andThen (outcome_of ok w) f = (if ok then f w else Panic w)"
  by (simp add: outcome_of_def)

lemma range_Groups_frame:
  "range_Groups ts gs w =
     outcome_of (list_all group_present gs) (w\<lparr>trace := trace w @ groups_out ts gs\<rparr>)"
proof (induction gs arbitrary: w)
  case Nil
  show ?case by (simp add: groups_out_def outcome_of_def)
next
  case (Cons g gs)
  show ?case
    by (cases "GroupName g"; cases "Group_Arn g"; cases "GroupId g"; cases "Group_CreateDate g")
      (simp_all add: groups_out_def [of ts "g # gs"] Cons.IH io_defs group_present_def
        outcome_of_def)
qed

lemma range_AttachedPolicies_frame:
  "range_AttachedPolicies ps w =
     outcome_of (list_all policy_present ps) (w\<lparr>trace := trace w @ policies_out ps\<rparr>)"
proof (induction ps arbitrary: w)
  case Nil
  show ?case by (simp add: policies_out_def outcome_of_def)
next
  case (Cons p ps)
  show ?case
    by (cases "PolicyName p"; cases "PolicyArn p")
      (simp_all add: policies_out_def [of "p # ps"] Cons.IH io_defs policy_present_def
        outcome_of_def)
qed

lemma range_Versions_frame:
  "range_Versions ts vs w =
     outcome_of (list_all version_present vs) (w\<lparr>trace := trace w @ versions_out ts vs\<rparr>)"
proof (induction vs arbitrary: w)
  case Nil
  show ?case by (simp add: versions_out_def outcome_of_def)
next
  case (Cons v vs)
  show ?case
    by (cases "VersionId v"; cases "Version_CreateDate v")
      (simp_all add: versions_out_def [of ts "v # vs"] Cons.IH io_defs version_present_def
        outcome_of_def)
qed

lemma groups_out_benign: "list_all benign (groups_out ts gs)"
proof (induction gs)
  case Nil
  show ?case by (simp add: groups_out_def)
next
  case (Cons g gs)
  then show ?case
    by (cases "GroupName g"; cases "Group_Arn g"; cases "GroupId g"; cases "Group_CreateDate g")
      (simp_all add: groups_out_def [of ts "g # gs"] range_Groups_frame [of ts gs] io_defs outcome_of_def
        closing_def line_def TAB_def MINOR_SEPARATOR_def)
qed

lemma policies_out_benign: "list_all benign (policies_out ps)"
proof (induction ps)
  case Nil
  show ?case by (simp add: policies_out_def)
next
  case (Cons p ps)
  then show ?case
    by (cases "PolicyName p"; cases "PolicyArn p")
      (simp_all add: policies_out_def [of "p # ps"] range_AttachedPolicies_frame [of ps] io_defs
        outcome_of_def closing_def line_def TAB_def MINOR_SEPARATOR_def)
qed

lemma versions_out_benign: "list_all benign (versions_out ts vs)"
proof (induction vs)
  case Nil
  show ?case by (simp add: versions_out_def)
next
  case (Cons v vs)
  then show ?case
    by (cases "VersionId v"; cases "Version_CreateDate v")
      (simp_all add: versions_out_def [of ts "v # vs"] range_Versions_frame [of ts vs] io_defs
        outcome_of_def closing_def line_def TAB_def)
qed

lemma groups_out_present:
  "list_all group_present gs \<Longrightarrow> groups_out ts gs = concat (map (group_block ts) gs)"
  by (simp add: groups_out_def range_Groups_present)

lemma policies_out_present:
  "list_all policy_present ps \<Longrightarrow> policies_out ps = concat (map policy_block ps)"
  by (simp add: policies_out_def range_AttachedPolicies_present)

lemma versions_out_present:
  "list_all version_present vs \<Longrightarrow> versions_out ts vs = concat (map (version_block ts) vs)"
  by (simp add: versions_out_def range_Versions_present)

subsection \<open>The interactive function\<close>

text \<open>
  A read stores the next token and drops it from the input. The interactive function
  adds to any world the events of its run from the empty trace on the same input; they
  are benign, and with a complete client the function returns.
\<close>

lemma fmt_Scanln_token:
  "fmt_Scanln w =
     (token (stdin w), w\<lparr>trace := trace w @ [Stdin (token (stdin w))], stdin := tl (stdin w)\<rparr>)"
  by (cases "stdin w") (simp_all add: fmt_Scanln_def emit_def token_def)

lemmas out_defs = emit_def fmt_Print_def fmt_Println_def fmt_Printf_def Printf_deref_def

lemmas prompt_defs = PromptUserForPolicyVersionDetails_def prompt_run_def
  ListLatestPolicyVersions_def GetPolicyVersionDetails_def out_defs fmt_Scanln_token Let_def
  range_Versions_frame outcome_of_def

lemma Prompt_frame:
  "PromptUserForPolicyVersionDetails ts c w =
     outcome_of (returns (prompt_run ts c (stdin w)))
       (w\<lparr>trace := trace w @ trace (world_of (prompt_run ts c (stdin w))),
          stdin := stdin (world_of (prompt_run ts c (stdin w)))\<rparr>)"
proof (cases "token (stdin w) = ''y''")
  case False
  then show ?thesis by (simp add: prompt_defs)
next
  case y: True
  show ?thesis
  proof (cases "iam_ListPolicyVersions c (token (tl (stdin w)))")
    case (Inl e)
    with y show ?thesis by (simp add: prompt_defs)
  next
    case lpv: (Inr vo)
    show ?thesis
    proof (cases "list_all version_present (Versions vo)")
      case False
      with y lpv show ?thesis by (simp add: prompt_defs)
    next
      case present: True
      show ?thesis
      proof (cases "iam_GetPolicyVersion c (token (tl (stdin w))) (token (tl (tl (stdin w))))")
        case (Inl e)
        with y lpv present show ?thesis by (simp add: prompt_defs)
      next
        case gpv: (Inr po)
        show ?thesis
        proof (cases "Option.bind (PolicyVersion po) VersionId")
          case None
          with y lpv present gpv show ?thesis by (simp add: prompt_defs)
        next
          case vid: (Some a)
          show ?thesis
          proof (cases "Option.bind (PolicyVersion po) Version_CreateDate")
            case None
            with y lpv present gpv vid show ?thesis by (simp add: prompt_defs)
          next
            case date: (Some b)
            show ?thesis
            proof (cases "Option.bind (PolicyVersion po) Document")
              case None
              with y lpv present gpv vid date show ?thesis by (simp add: prompt_defs)
            next
              case doc: (Some d)
              show ?thesis
                using y lpv present gpv vid date doc
                by (cases "QueryUnescape d") (simp_all add: prompt_defs)
            qed
          qed
        qed
      qed
    qed
  qed
qed

lemma Prompt_frame_lit:
  "PromptUserForPolicyVersionDetails ts c \<lparr>trace = T, stdin = inp\<rparr> =
     outcome_of (returns (prompt_run ts c inp))
       \<lparr>trace = T @ trace (world_of (prompt_run ts c inp)),
        stdin = stdin (world_of (prompt_run ts c inp))\<rparr>"
  by (simp add: Prompt_frame)

lemmas benign_defs = closing_def line_def TAB_def MAJOR_SEPARATOR_def

lemma prompt_run_properties:
  "list_all benign (trace (world_of (prompt_run ts c inp))) \<and>
   (client_complete c \<longrightarrow> returns (prompt_run ts c inp))"
proof (cases "token inp = ''y''")
  case False
  then show ?thesis by (simp add: prompt_defs benign_defs)
next
  case y: True
  show ?thesis
  proof (cases "iam_ListPolicyVersions c (token (tl inp))")
    case (Inl e)
    with y show ?thesis by (simp add: prompt_defs benign_defs)
  next
    case lpv: (Inr vo)
    have vb: "list_all benign (versions_out ts (Versions vo))"
      by (rule versions_out_benign)
    have vc: "client_complete c \<Longrightarrow> list_all version_present (Versions vo)"
      using lpv by (auto simp: client_complete_def split: sum.splits)
    show ?thesis
    proof (cases "list_all version_present (Versions vo)")
      case False
      with y lpv vb vc show ?thesis by (auto simp add: prompt_defs benign_defs)
    next
      case present: True
      show ?thesis
      proof (cases "iam_GetPolicyVersion c (token (tl inp)) (token (tl (tl inp)))")
        case (Inl e)
        with y lpv present vb show ?thesis by (simp add: prompt_defs benign_defs)
      next
        case gpv: (Inr po)
        have dc: "client_complete c \<Longrightarrow> document_complete po"
          using gpv by (auto simp: client_complete_def split: sum.splits)
        show ?thesis
        proof (cases "Option.bind (PolicyVersion po) VersionId")
          case None
          then have "\<not> document_complete po"
            by (auto simp: document_complete_def version_present_def split: option.splits)
          with y lpv present gpv vb dc None show ?thesis
            by (auto simp add: prompt_defs benign_defs)
        next
          case vid: (Some a)
          show ?thesis
          proof (cases "Option.bind (PolicyVersion po) Version_CreateDate")
            case None
            then have "\<not> document_complete po"
              by (auto simp: document_complete_def version_present_def split: option.splits)
            with y lpv present gpv vb dc vid None show ?thesis
              by (auto simp add: prompt_defs benign_defs)
          next
            case date: (Some b)
            show ?thesis
            proof (cases "Option.bind (PolicyVersion po) Document")
              case None
              then have "\<not> document_complete po"
                by (auto simp: document_complete_def version_present_def split: option.splits)
              with y lpv present gpv vb dc vid date None show ?thesis
                by (auto simp add: prompt_defs benign_defs)
            next
              case doc: (Some d)
              show ?thesis
                using y lpv present gpv vid date doc vb
                by (cases "QueryUnescape d") (simp_all add: prompt_defs benign_defs)
            qed
          qed
        qed
      qed
    qed
  qed
qed

text \<open>The runs of the interactive function that return, one lemma for each way.\<close>

lemmas version_defs = prompt_events_def versions_intro_def version_failure_def
  versions_listing_def version_details_def document_lines_def section_versions_def
  line_def item_def

lemma prompt_run_skip:
  assumes "token inp \<noteq> ''y''"
  shows "prompt_run ts c inp = Return \<lparr>trace = prompt_events (token inp), stdin = tl inp\<rparr>"
  using assms by (simp add: prompt_defs version_defs)

lemma prompt_run_list_fails:
  assumes "token inp = ''y''"
    and "iam_ListPolicyVersions c (token (tl inp)) = Inl e"
  shows "prompt_run ts c inp =
           Return \<lparr>trace = versions_intro (token (tl inp)) @ version_failure e,
                   stdin = tl (tl inp)\<rparr>"
  using assms by (simp add: prompt_defs version_defs)

lemma prompt_run_get_fails:
  assumes "token inp = ''y''"
    and "iam_ListPolicyVersions c (token (tl inp)) = Inr vo"
    and "list_all version_present (Versions vo)"
    and "iam_GetPolicyVersion c (token (tl inp)) (token (tl (tl inp))) = Inl e"
  shows "prompt_run ts c inp =
           Return
             \<lparr>trace = versions_listing ts (token (tl inp)) (Versions vo) (token (tl (tl inp))) @
                version_failure e,
              stdin = tl (tl (tl inp))\<rparr>"
  using assms by (simp add: prompt_defs version_defs versions_out_present)

lemma prompt_run_details:
  assumes "token inp = ''y''"
    and "iam_ListPolicyVersions c (token (tl inp)) = Inr vo"
    and "list_all version_present (Versions vo)"
    and "iam_GetPolicyVersion c (token (tl inp)) (token (tl (tl inp))) = Inr po"
    and "PolicyVersion po = Some pv"
    and "version_present pv"
    and "Document pv = Some doc"
  shows "prompt_run ts c inp =
           Return
             \<lparr>trace = versions_listing ts (token (tl inp)) (Versions vo) (token (tl (tl inp))) @
                version_details ts pv @
                (case QueryUnescape doc of
                   Inl err \<Rightarrow> [line ''Couldn't encode the document. Exiting...'']
                 | Inr decoded \<Rightarrow> document_lines decoded),
              stdin = tl (tl (tl inp))\<rparr>"
proof -
  obtain a b where "VersionId pv = Some a" "Version_CreateDate pv = Some b"
    using assms(6) by (auto simp: version_present_def)
  with assms(1-5,7) show ?thesis
    by (cases "QueryUnescape doc") (simp_all add: prompt_defs version_defs versions_out_present)
qed

subsection \<open>The runs of main\<close>

text \<open>
  Every run of main is one of these: the first query fails; a field of the user is nil;
  or the user is complete, and the run is decided by what the client answers next.
\<close>

lemmas main_defs = main_def GetUserDetails_def ListUserGroups_def ListAttachedUserPolicies_def
  ListInlineUserPolicies_def out_defs Let_def range_Groups_frame range_AttachedPolicies_frame
  range_PolicyNames_trace Prompt_frame_lit
  
lemmas report_defs = user_header_def groups_header_def attached_header_def inline_header_def
  section_user_def section_groups_def section_attached_def section_inline_def user_block_def
  closing_def line_def item_def

lemma main_getuser_fails:
  assumes "iam_GetUser c = Inl e"
  shows "run ts c inp =
           Return
             \<lparr>trace = user_header @
                [line (''Couldn't get details for the user. Here's why: '' @ e),
                 line ''Couldn't get details for the current user. Exiting...''],
              stdin = inp\<rparr>"
  using assms by (simp add: main_defs report_defs)

lemma main_user_nil:
  assumes "iam_GetUser c = Inr d" and "\<not> user_complete d"
  shows "\<exists>evs. run ts c inp = Panic \<lparr>trace = user_header @ evs, stdin = inp\<rparr> \<and>
           list_all benign evs"
proof (cases "Option.bind (User d) UserName")
  case None
  with assms(1) have "run ts c inp =
      Panic \<lparr>trace = user_header @ [line ''User details:''], stdin = inp\<rparr>"
    by (simp add: main_defs report_defs)
  then show ?thesis by (simp add: closing_def line_def) 
next
  case n: (Some n)
  show ?thesis
  proof (cases "Option.bind (User d) User_Arn")
    case None
    with assms(1) n have "run ts c inp =
        Panic \<lparr>trace = user_header @ [line ''User details:'', item ''Username: '' n],
               stdin = inp\<rparr>"
      by (simp add: main_defs report_defs)
    then show ?thesis by (simp add: closing_def line_def item_def TAB_def) 
  next
    case a: (Some a)
    show ?thesis
    proof (cases "Option.bind (User d) UserId")
      case None
      with assms(1) n a have "run ts c inp =
          Panic \<lparr>trace = user_header @
                   [line ''User details:'', item ''Username: '' n, item ''User ARN: '' a],
                 stdin = inp\<rparr>"
        by (simp add: main_defs report_defs)
      then show ?thesis by (simp add: closing_def line_def item_def TAB_def) 
    next
      case i: (Some i)
      from assms(2) n a i have "Option.bind (User d) User_CreateDate = None"
        by (auto simp: user_complete_def user_present_def split: option.splits)
      with assms(1) n a i have "run ts c inp =
          Panic \<lparr>trace = user_header @
                   [line ''User details:'', item ''Username: '' n, item ''User ARN: '' a,
                    item ''User ID: '' i],
                 stdin = inp\<rparr>"
        by (simp add: main_defs report_defs)
      then show ?thesis by (simp add: closing_def line_def item_def TAB_def) 
    qed
  qed
qed

lemma main_user_ok:
  assumes "iam_GetUser c = Inr d"
    and "User d = Some u"
    and "user_present u"
    and "UserName u = Some n"
  shows "run ts c inp =
    (case iam_ListGroupsForUser c n of
       Inl e \<Rightarrow>
         Return
           \<lparr>trace = section_user ts u @ groups_header n @
              [line (''Couldn't get the groups for the user. Here's why: '' @ e),
               line ''Couldn't get groups for the current user. Exiting...''],
            stdin = inp\<rparr>
     | Inr gso \<Rightarrow>
         if \<not> list_all group_present (Groups gso) then
           Panic
             \<lparr>trace = section_user ts u @ groups_header n @ groups_out ts (Groups gso),
              stdin = inp\<rparr>
         else
           (case iam_ListAttachedUserPolicies c n of
              Inl e \<Rightarrow>
                Return
                  \<lparr>trace = section_user ts u @ section_groups ts n (Groups gso) @
                     attached_header n @
                     [line (''Couldn't get the policies attached to the user. Here's why: '' @ e),
                      line ''Couldn't get attached policies for the current user. Exiting...''],
                   stdin = inp\<rparr>
            | Inr apo \<Rightarrow>
                if \<not> list_all policy_present (AttachedPolicies apo) then
                  Panic
                    \<lparr>trace = section_user ts u @ section_groups ts n (Groups gso) @
                       attached_header n @ policies_out (AttachedPolicies apo),
                     stdin = inp\<rparr>
                else if \<not> returns (prompt_run ts c inp) then
                  Panic
                    \<lparr>trace = section_user ts u @ section_groups ts n (Groups gso) @
                       section_attached n (AttachedPolicies apo) @
                       trace (world_of (prompt_run ts c inp)),
                     stdin = stdin (world_of (prompt_run ts c inp))\<rparr>
                else
                  (case iam_ListUserPolicies c n of
                     Inl e \<Rightarrow>
                       Return
                         \<lparr>trace = section_user ts u @ section_groups ts n (Groups gso) @
                            section_attached n (AttachedPolicies apo) @
                            trace (world_of (prompt_run ts c inp)) @ inline_header n @
                            [line (''Couldn't get the inline policies attached to the user. Here's why: '' @ e),
                             line ''Couldn't get inline policies for the current user. Exiting...''],
                          stdin = stdin (world_of (prompt_run ts c inp))\<rparr>
                   | Inr ipo \<Rightarrow>
                       Return
                         \<lparr>trace = section_user ts u @ section_groups ts n (Groups gso) @
                            section_attached n (AttachedPolicies apo) @
                            trace (world_of (prompt_run ts c inp)) @
                            section_inline n (PolicyNames ipo) @ [closing],
                          stdin = stdin (world_of (prompt_run ts c inp))\<rparr>)))"
proof -
  obtain a i t where fields:
    "User_Arn u = Some a" "UserId u = Some i" "User_CreateDate u = Some t"
    using assms(3) by (auto simp: user_present_def)
  note facts = assms(1,2,4) fields
  show ?thesis
  proof (cases "iam_ListGroupsForUser c n")
    case (Inl e)
    with facts show ?thesis by (simp add: main_defs report_defs)
  next
    case lg: (Inr gso)
    show ?thesis
    proof (cases "list_all group_present (Groups gso)")
      case False
      with facts lg show ?thesis by (simp add: main_defs report_defs)
    next
      case gs: True
      show ?thesis
      proof (cases "iam_ListAttachedUserPolicies c n")
        case (Inl e)
        with facts lg gs show ?thesis by (simp add: main_defs report_defs groups_out_present)
      next
        case la: (Inr apo)
        show ?thesis
        proof (cases "list_all policy_present (AttachedPolicies apo)")
          case False
          with facts lg gs la show ?thesis
            by (simp add: main_defs report_defs groups_out_present)
        next
          case ps: True
          show ?thesis
          proof (cases "returns (prompt_run ts c inp)")
            case False
            with facts lg gs la ps show ?thesis
              by (simp add: main_defs report_defs groups_out_present policies_out_present)
          next
            case pr: True
            with facts lg gs la ps show ?thesis
              by (cases "iam_ListUserPolicies c n")
                (simp_all add: main_defs report_defs groups_out_present policies_out_present)
          qed
        qed
      qed
    qed
  qed
qed

lemma run_top_level_succeeds:
  assumes "iam_GetUser c = Inr d"
    and "User d = Some u"
    and "user_present u"
    and "UserName u = Some n"
    and "iam_ListGroupsForUser c n = Inr gso"
    and "list_all group_present (Groups gso)"
    and "iam_ListAttachedUserPolicies c n = Inr apo"
    and "list_all policy_present (AttachedPolicies apo)"
    and "iam_ListUserPolicies c n = Inr ipo"
    and "prompt_run ts c inp = Return \<lparr>trace = evs, stdin = rest\<rparr>"
  shows "run ts c inp =
           Return
             \<lparr>trace = section_user ts u @ section_groups ts n (Groups gso) @
                section_attached n (AttachedPolicies apo) @ evs @
                section_inline n (PolicyNames ipo) @ [closing],
              stdin = rest\<rparr>"
  using assms(5-10) by (simp add: main_user_ok [OF assms(1-4)])

text \<open>Which requests and which lines the parts of a trace hold.\<close>

lemma benign_events:
  assumes "list_all benign evs"
  shows "closing \<notin> set evs" and "Request r \<in> set evs \<Longrightarrow> version_request r"
  using assms by (induction evs) (auto simp: closing_def line_def elim: benign.elims)

lemma block_requests [simp]:
  "Request r \<notin> set (group_block ts g)"
  "Request r \<notin> set (policy_block p)"
  "Request r \<notin> set (inline_block name)"
  by (auto simp: group_block_def policy_block_def inline_block_def item_def line_def)

lemma block_closing [simp]:
  "closing \<notin> set (group_block ts g)"
  "closing \<notin> set (policy_block p)"
  "closing \<notin> set (inline_block name)"
  by (auto simp: group_block_def policy_block_def inline_block_def item_def benign_defs
      MINOR_SEPARATOR_def)

lemma blocks_requests [simp]:
  "Request r \<notin> set (concat (map (group_block ts) gs))"
  "Request r \<notin> set (concat (map policy_block ps))"
  "Request r \<notin> set (concat (map inline_block ns))"
  by (auto simp: group_block_def policy_block_def inline_block_def item_def line_def)

lemma blocks_closing [simp]:
  "closing \<notin> set (concat (map (group_block ts) gs))"
  "closing \<notin> set (concat (map policy_block ps))"
  "closing \<notin> set (concat (map inline_block ns))"
  by (auto simp: group_block_def policy_block_def inline_block_def item_def benign_defs
      MINOR_SEPARATOR_def)

lemma section_requests:
  "Request r \<in> set user_header \<longleftrightarrow> r = GetUserInput"
  "Request r \<in> set (section_user ts u) \<longleftrightarrow> r = GetUserInput"
  "Request r \<in> set (groups_header n) \<longleftrightarrow> r = ListGroupsForUserInput n"
  "Request r \<in> set (section_groups ts n gs) \<longleftrightarrow> r = ListGroupsForUserInput n"
  "Request r \<in> set (attached_header n) \<longleftrightarrow> r = ListAttachedUserPoliciesInput n"
  "Request r \<in> set (section_attached n ps) \<longleftrightarrow> r = ListAttachedUserPoliciesInput n"
  "Request r \<in> set (inline_header n) \<longleftrightarrow> r = ListUserPoliciesInput n"
  "Request r \<in> set (section_inline n ns) \<longleftrightarrow> r = ListUserPoliciesInput n"
  by (auto simp: user_header_def section_user_def user_block_def groups_header_def
      section_groups_def attached_header_def section_attached_def inline_header_def
      section_inline_def line_def item_def)

lemma closing_eq [simp]:
  "line s = closing \<longleftrightarrow> s = ''All done!''"
  "item label v \<noteq> closing"
  "Request r \<noteq> closing"
  "Stdin x \<noteq> closing"
  "closing = line s \<longleftrightarrow> s = ''All done!''"
  "closing \<noteq> item label v"
  "closing \<noteq> Request r"
  "closing \<noteq> Stdin x"
  by (auto simp: closing_def line_def item_def TAB_def)


lemma user_complete_fields:
  assumes "user_complete d"
  obtains u n where "User d = Some u" "user_present u" "UserName u = Some n"
  using assms by (auto simp: user_complete_def user_present_def split: option.splits)

lemma request_neq [simp]:
  "Request r \<noteq> line s" "line s \<noteq> Request r"
  "Request r \<noteq> item label v" "item label v \<noteq> Request r"
  by (simp_all add: line_def item_def)

lemmas prompt_benign = prompt_run_properties [THEN conjunct1]

lemma stage_requests:
  "\<not> version_request r \<Longrightarrow> Request r \<notin> set (groups_out ts gs)"
  "\<not> version_request r \<Longrightarrow> Request r \<notin> set (policies_out ps)"
  "\<not> version_request r \<Longrightarrow> Request r \<notin> set (trace (world_of (prompt_run ts c inp)))"
  using benign_events(2) [OF groups_out_benign] benign_events(2) [OF policies_out_benign]
    benign_events(2) [OF prompt_benign]
  by blast+


lemma returns_simps [simp]:
  "returns (outcome_of ok w) = ok"
  by (simp add: outcome_of_def)

subsection \<open>The sample runs\<close>

text \<open>
  What the decoder makes of the sample documents, and the run of the sample client when
  the answer at the prompt is \<open>n\<close>.
\<close>

lemma sample_documents:
  "QueryUnescape ''%7B%22Version%22%3A+1%7D'' =
     Inr (''{'' @ [CHR 0x22] @ ''Version'' @ [CHR 0x22] @ '': 1}'')"
  "QueryUnescape ''%zz'' = Inl ''%zz''"
  by code_simp+

lemmas sample_defs = alice_client_def alice_def alice_groups_def alice_policies_def
  alice_version_def no_versions_client_def no_version_client_def bad_document_client_def
  nil_user_client_def nil_group_client_def nil_policy_client_def bare_client_def
  user_present_def group_present_def policy_present_def version_present_def token_def


lemma alice_run:
  "run strokes alice_client [''n''] =
     Return
       \<lparr>trace = section_user strokes alice @ section_groups strokes ''alice'' alice_groups @
          section_attached ''alice'' alice_policies @ prompt_events ''n'' @
          section_inline ''alice'' [] @ [closing],
        stdin = []\<rparr>"
  using run_top_level_succeeds
    [where c = alice_client and d = "\<lparr>User = Some alice\<rparr>" and u = alice and n = "''alice''"
       and gso = "\<lparr>Groups = alice_groups\<rparr>" and apo = "\<lparr>AttachedPolicies = alice_policies\<rparr>"
       and ipo = "\<lparr>PolicyNames = []\<rparr>" and ts = strokes and inp = "[''n'']"
       and evs = "prompt_events ''n''" and rest = "[]"]
  by (simp add: sample_defs prompt_run_skip)

subsection \<open>The order of the report\<close>

text \<open>
  Claim C7. On a run in which every query succeeds and no dereferenced field is nil,
  the events are those of the sections in one fixed order: the current user, the groups
  of that user, the attached policies, the interactive part, the inline policies, and
  the closing line last. The interactive part is the prompt and the answer when the
  answer is not \<open>y\<close>; when it is \<open>y\<close> and both requests and the decoding succeed,
  it is the listing of the versions followed by the details and the decoded document of
  the chosen version.
\<close>

theorem report_sections_in_order:
  assumes "iam_GetUser c = Inr d"
    and "User d = Some u"
    and "user_present u"
    and "UserName u = Some n"
    and "iam_ListGroupsForUser c n = Inr gso"
    and "list_all group_present (Groups gso)"
    and "iam_ListAttachedUserPolicies c n = Inr apo"
    and "list_all policy_present (AttachedPolicies apo)"
    and "iam_ListUserPolicies c n = Inr ipo"
  shows "(token inp \<noteq> ''y'' \<longrightarrow>
            run ts c inp =
              Return
                \<lparr>trace = section_user ts u @ section_groups ts n (Groups gso) @
                   section_attached n (AttachedPolicies apo) @ prompt_events (token inp) @
                   section_inline n (PolicyNames ipo) @ [closing],
                 stdin = tl inp\<rparr>) \<and>
         (token inp = ''y'' \<and>
          iam_ListPolicyVersions c (token (tl inp)) = Inr vo \<and>
          list_all version_present (Versions vo) \<and>
          iam_GetPolicyVersion c (token (tl inp)) (token (tl (tl inp))) = Inr po \<and>
          PolicyVersion po = Some pv \<and> version_present pv \<and> Document pv = Some doc \<and>
          QueryUnescape doc = Inr decoded \<longrightarrow>
            run ts c inp =
              Return
                \<lparr>trace = section_user ts u @ section_groups ts n (Groups gso) @
                   section_attached n (AttachedPolicies apo) @
                   section_versions ts (token (tl inp)) (Versions vo) (token (tl (tl inp))) pv
                     decoded @
                   section_inline n (PolicyNames ipo) @ [closing],
                 stdin = tl (tl (tl inp))\<rparr>)"
proof (intro conjI impI)
  assume "token inp \<noteq> ''y''"
  then show "run ts c inp =
      Return
        \<lparr>trace = section_user ts u @ section_groups ts n (Groups gso) @
           section_attached n (AttachedPolicies apo) @ prompt_events (token inp) @
           section_inline n (PolicyNames ipo) @ [closing],
         stdin = tl inp\<rparr>"
    by (rule run_top_level_succeeds [OF assms prompt_run_skip])
next
  assume h: "token inp = ''y'' \<and>
    iam_ListPolicyVersions c (token (tl inp)) = Inr vo \<and>
    list_all version_present (Versions vo) \<and>
    iam_GetPolicyVersion c (token (tl inp)) (token (tl (tl inp))) = Inr po \<and>
    PolicyVersion po = Some pv \<and> version_present pv \<and> Document pv = Some doc \<and>
    QueryUnescape doc = Inr decoded"
  then have "prompt_run ts c inp =
      Return
        \<lparr>trace = section_versions ts (token (tl inp)) (Versions vo) (token (tl (tl inp))) pv
           decoded,
         stdin = tl (tl (tl inp))\<rparr>"
    using prompt_run_details [of inp c vo po pv doc ts] by (simp add: section_versions_def)
  then show "run ts c inp =
      Return
        \<lparr>trace = section_user ts u @ section_groups ts n (Groups gso) @
           section_attached n (AttachedPolicies apo) @
           section_versions ts (token (tl inp)) (Versions vo) (token (tl (tl inp))) pv decoded @
           section_inline n (PolicyNames ipo) @ [closing],
         stdin = tl (tl (tl inp))\<rparr>"
    by (rule run_top_level_succeeds [OF assms])
qed

text \<open>
  The sample client, once with the answer \<open>n\<close> and once asking for version
  \<open>v1\<close> of its policy.
\<close>

theorem report_sections_in_order_witness:
  "run strokes alice_client [''n''] =
     Return
       \<lparr>trace = section_user strokes alice @ section_groups strokes ''alice'' alice_groups @
          section_attached ''alice'' alice_policies @ prompt_events ''n'' @
          section_inline ''alice'' [] @ [closing],
        stdin = []\<rparr> \<and>
   run strokes alice_client [''y'', ''arn:aws:iam::1:policy/ReadOnly'', ''v1''] =
     Return
       \<lparr>trace = section_user strokes alice @ section_groups strokes ''alice'' alice_groups @
          section_attached ''alice'' alice_policies @
          section_versions strokes ''arn:aws:iam::1:policy/ReadOnly'' [alice_version] ''v1''
            alice_version (''{'' @ [CHR 0x22] @ ''Version'' @ [CHR 0x22] @ '': 1}'') @
          section_inline ''alice'' [] @ [closing],
        stdin = []\<rparr>"
  using report_sections_in_order
    [where c = alice_client and d = "\<lparr>User = Some alice\<rparr>" and u = alice and n = "''alice''"
       and gso = "\<lparr>Groups = alice_groups\<rparr>" and apo = "\<lparr>AttachedPolicies = alice_policies\<rparr>"
       and ipo = "\<lparr>PolicyNames = []\<rparr>" and ts = strokes and inp = "[''n'']"]
    report_sections_in_order
    [where c = alice_client and d = "\<lparr>User = Some alice\<rparr>" and u = alice and n = "''alice''"
       and gso = "\<lparr>Groups = alice_groups\<rparr>" and apo = "\<lparr>AttachedPolicies = alice_policies\<rparr>"
       and ipo = "\<lparr>PolicyNames = []\<rparr>" and ts = strokes
       and inp = "[''y'', ''arn:aws:iam::1:policy/ReadOnly'', ''v1'']"
       and vo = "\<lparr>Versions = [alice_version]\<rparr>"
       and po = "\<lparr>PolicyVersion = Some alice_version\<rparr>" and pv = alice_version
       and doc = "''%7B%22Version%22%3A+1%7D''"
       and decoded = "''{'' @ [CHR 0x22] @ ''Version'' @ [CHR 0x22] @ '': 1}''"]
  by (simp add: sample_defs sample_documents)

subsection \<open>The printed fields\<close>

text \<open>
  Claim C6. When the four top-level queries succeed, every field the report prints for
  them is the field of the client's response as it is, between its label and a newline:
  the username, the ARNs, the IDs, the creation times (through \<open>ts\<close>, which stands
  for how \<^verbatim>\<open>%v\<close> prints a time) and the policy names. The events of the interactive
  function stand between the attached policies and the inline policies.
\<close>

theorem printed_fields_equal_response_fields:
  assumes "iam_GetUser c = Inr d"
    and "User d = Some u"
    and "user_present u"
    and "UserName u = Some n"
    and "iam_ListGroupsForUser c n = Inr gso"
    and "list_all group_present (Groups gso)"
    and "iam_ListAttachedUserPolicies c n = Inr apo"
    and "list_all policy_present (AttachedPolicies apo)"
    and "iam_ListUserPolicies c n = Inr ipo"
    and "returns (prompt_run ts c inp)"
  shows "trace (world_of (run ts c inp)) =
     [line ''Getting details for the current user...'',
      line MAJOR_SEPARATOR,
      Request GetUserInput,
      line ''User details:'',
      item ''Username: '' (the (UserName u)),
      item ''User ARN: '' (the (User_Arn u)),
      item ''User ID: '' (the (UserId u)),
      item ''Created on: '' (ts (the (User_CreateDate u))),
      line MAJOR_SEPARATOR,
      line MAJOR_SEPARATOR,
      line ''Getting groups for the current user...'',
      line MAJOR_SEPARATOR,
      Request (ListGroupsForUserInput (the (UserName u)))] @
     concat
       (map (\<lambda>g. [item ''Group name: '' (the (GroupName g)),
                  item ''Group ARN: '' (the (Group_Arn g)),
                  item ''Group ID: '' (the (GroupId g)),
                  item ''Created on: '' (ts (the (Group_CreateDate g))),
                  line MINOR_SEPARATOR])
          (Groups gso)) @
     [line MAJOR_SEPARATOR,
      line ''Getting attached policies for the current user...'',
      line MAJOR_SEPARATOR,
      Request (ListAttachedUserPoliciesInput (the (UserName u)))] @
     concat
       (map (\<lambda>p. [item ''Policy name: '' (the (PolicyName p)),
                  item ''Policy ARN: '' (the (PolicyArn p)),
                  line MINOR_SEPARATOR])
          (AttachedPolicies apo)) @
     trace (world_of (prompt_run ts c inp)) @
     [line MAJOR_SEPARATOR,
      line ''Getting inline policies for the current user...'',
      line MAJOR_SEPARATOR,
      Request (ListUserPoliciesInput (the (UserName u)))] @
     concat (map (\<lambda>name. [item ''Policy name: '' name, line MINOR_SEPARATOR]) (PolicyNames ipo)) @
     [line ''All done!'']"
  using assms(4-10)
  by (simp add: main_user_ok [OF assms(1-4)] section_user_def section_groups_def
      section_attached_def section_inline_def user_block_def closing_def user_header_def
      groups_header_def attached_header_def inline_header_def
      group_block_def [abs_def] policy_block_def [abs_def] inline_block_def [abs_def])

text \<open>
  The report for the sample client, event by event.
\<close>

theorem printed_fields_equal_response_fields_witness:
  "trace (world_of (run strokes alice_client [''n''])) =
     [line ''Getting details for the current user...'',
      line MAJOR_SEPARATOR,
      Request GetUserInput,
      line ''User details:'',
      item ''Username: '' ''alice'',
      item ''User ARN: '' ''arn:aws:iam::1:user/alice'',
      item ''User ID: '' ''AIDA1'',
      item ''Created on: '' (strokes 3),
      line MAJOR_SEPARATOR,
      line MAJOR_SEPARATOR,
      line ''Getting groups for the current user...'',
      line MAJOR_SEPARATOR,
      Request (ListGroupsForUserInput ''alice''),
      item ''Group name: '' ''admins'',
      item ''Group ARN: '' ''arn:aws:iam::1:group/admins'',
      item ''Group ID: '' ''AGPA1'',
      item ''Created on: '' (strokes 1),
      line MINOR_SEPARATOR,
      item ''Group name: '' ''devs'',
      item ''Group ARN: '' ''arn:aws:iam::1:group/devs'',
      item ''Group ID: '' ''AGPA2'',
      item ''Created on: '' (strokes 2),
      line MINOR_SEPARATOR,
      line MAJOR_SEPARATOR,
      line ''Getting attached policies for the current user...'',
      line MAJOR_SEPARATOR,
      Request (ListAttachedUserPoliciesInput ''alice''),
      item ''Policy name: '' ''ReadOnly'',
      item ''Policy ARN: '' ''arn:aws:iam::1:policy/ReadOnly'',
      line MINOR_SEPARATOR,
      Stdout ''Do you want the details of any policy's version? (y/n): '',
      Stdin ''n'',
      line MAJOR_SEPARATOR,
      line ''Getting inline policies for the current user...'',
      line MAJOR_SEPARATOR,
      Request (ListUserPoliciesInput ''alice''),
      line ''All done!'']"
  using printed_fields_equal_response_fields
    [where c = alice_client and d = "\<lparr>User = Some alice\<rparr>" and u = alice and n = "''alice''"
       and gso = "\<lparr>Groups = alice_groups\<rparr>" and apo = "\<lparr>AttachedPolicies = alice_policies\<rparr>"
       and ipo = "\<lparr>PolicyNames = []\<rparr>" and ts = strokes and inp = "[''n'']"]
  by (simp add: sample_defs prompt_run_skip prompt_events_def)

subsection \<open>Empty lists\<close>

text \<open>
  Claim C5. On a run whose top-level queries succeed, a list with no element leaves its
  section with the header alone: the separator, the title, the separator and the
  request, followed at once by the next part of the report. This holds for the groups,
  for the attached policies and for the inline policy names.
\<close>

theorem empty_list_prints_header_only:
  assumes "iam_GetUser c = Inr d"
    and "User d = Some u"
    and "user_present u"
    and "UserName u = Some n"
    and "iam_ListGroupsForUser c n = Inr gso"
    and "list_all group_present (Groups gso)"
    and "iam_ListAttachedUserPolicies c n = Inr apo"
    and "list_all policy_present (AttachedPolicies apo)"
    and "iam_ListUserPolicies c n = Inr ipo"
    and "returns (prompt_run ts c inp)"
  shows "(Groups gso = [] \<longrightarrow>
            trace (world_of (run ts c inp)) =
              section_user ts u @
              [line MAJOR_SEPARATOR, line ''Getting groups for the current user...'',
               line MAJOR_SEPARATOR, Request (ListGroupsForUserInput n)] @
              section_attached n (AttachedPolicies apo) @
              trace (world_of (prompt_run ts c inp)) @
              section_inline n (PolicyNames ipo) @ [closing]) \<and>
         (AttachedPolicies apo = [] \<longrightarrow>
            trace (world_of (run ts c inp)) =
              section_user ts u @ section_groups ts n (Groups gso) @
              [line MAJOR_SEPARATOR, line ''Getting attached policies for the current user...'',
               line MAJOR_SEPARATOR, Request (ListAttachedUserPoliciesInput n)] @
              trace (world_of (prompt_run ts c inp)) @
              section_inline n (PolicyNames ipo) @ [closing]) \<and>
         (PolicyNames ipo = [] \<longrightarrow>
            trace (world_of (run ts c inp)) =
              section_user ts u @ section_groups ts n (Groups gso) @
              section_attached n (AttachedPolicies apo) @
              trace (world_of (prompt_run ts c inp)) @
              [line MAJOR_SEPARATOR, line ''Getting inline policies for the current user...'',
               line MAJOR_SEPARATOR, Request (ListUserPoliciesInput n)] @
              [closing])"
  using assms(5-10)
  by (simp add: main_user_ok [OF assms(1-4)] section_groups_def section_attached_def
      section_inline_def groups_header_def attached_header_def inline_header_def)

text \<open>
  A user with no group, no attached policy and no inline policy.
\<close>

theorem empty_list_prints_header_only_witness:
  "trace (world_of (run strokes bare_client [''n''])) =
     section_user strokes alice @
     [line MAJOR_SEPARATOR, line ''Getting groups for the current user...'',
      line MAJOR_SEPARATOR, Request (ListGroupsForUserInput ''alice'')] @
     [line MAJOR_SEPARATOR, line ''Getting attached policies for the current user...'',
      line MAJOR_SEPARATOR, Request (ListAttachedUserPoliciesInput ''alice'')] @
     prompt_events ''n'' @
     [line MAJOR_SEPARATOR, line ''Getting inline policies for the current user...'',
      line MAJOR_SEPARATOR, Request (ListUserPoliciesInput ''alice'')] @
     [closing]"
  using empty_list_prints_header_only
    [where c = bare_client and d = "\<lparr>User = Some alice\<rparr>" and u = alice and n = "''alice''"
       and gso = "\<lparr>Groups = []\<rparr>" and apo = "\<lparr>AttachedPolicies = []\<rparr>"
       and ipo = "\<lparr>PolicyNames = []\<rparr>" and ts = strokes and inp = "[''n'']"]
  by (simp add: sample_defs prompt_run_skip section_groups_def section_attached_def
      section_inline_def groups_header_def attached_header_def inline_header_def)

subsection \<open>Failures inside the interactive branch\<close>

text \<open>
  Claim C2. On a run whose top-level queries succeed and whose answer at the prompt is
  \<open>y\<close>, each failure inside the interactive function ends that function only: when
  the list of versions is refused, when the chosen version is refused, and when the
  document does not decode, the function prints its failure line and returns, and main
  goes on with the whole section of the inline policies and the closing line.
\<close>

theorem interactive_failure_aborts_branch_only:
  assumes "iam_GetUser c = Inr d"
    and "User d = Some u"
    and "user_present u"
    and "UserName u = Some n"
    and "iam_ListGroupsForUser c n = Inr gso"
    and "list_all group_present (Groups gso)"
    and "iam_ListAttachedUserPolicies c n = Inr apo"
    and "list_all policy_present (AttachedPolicies apo)"
    and "iam_ListUserPolicies c n = Inr ipo"
    and "token inp = ''y''"
  shows "(iam_ListPolicyVersions c (token (tl inp)) = Inl e \<longrightarrow>
            run ts c inp =
              Return
                \<lparr>trace = section_user ts u @ section_groups ts n (Groups gso) @
                   section_attached n (AttachedPolicies apo) @
                   (versions_intro (token (tl inp)) @ version_failure e) @
                   section_inline n (PolicyNames ipo) @ [closing],
                 stdin = tl (tl inp)\<rparr>) \<and>
         (iam_ListPolicyVersions c (token (tl inp)) = Inr vo \<and>
          list_all version_present (Versions vo) \<and>
          iam_GetPolicyVersion c (token (tl inp)) (token (tl (tl inp))) = Inl e \<longrightarrow>
            run ts c inp =
              Return
                \<lparr>trace = section_user ts u @ section_groups ts n (Groups gso) @
                   section_attached n (AttachedPolicies apo) @
                   (versions_listing ts (token (tl inp)) (Versions vo) (token (tl (tl inp))) @
                    version_failure e) @
                   section_inline n (PolicyNames ipo) @ [closing],
                 stdin = tl (tl (tl inp))\<rparr>) \<and>
         (iam_ListPolicyVersions c (token (tl inp)) = Inr vo \<and>
          list_all version_present (Versions vo) \<and>
          iam_GetPolicyVersion c (token (tl inp)) (token (tl (tl inp))) = Inr po \<and>
          PolicyVersion po = Some pv \<and> version_present pv \<and> Document pv = Some doc \<and>
          QueryUnescape doc = Inl e \<longrightarrow>
            run ts c inp =
              Return
                \<lparr>trace = section_user ts u @ section_groups ts n (Groups gso) @
                   section_attached n (AttachedPolicies apo) @
                   (versions_listing ts (token (tl inp)) (Versions vo) (token (tl (tl inp))) @
                    version_details ts pv @
                    [line ''Couldn't encode the document. Exiting...'']) @
                   section_inline n (PolicyNames ipo) @ [closing],
                 stdin = tl (tl (tl inp))\<rparr>)"
  using prompt_run_list_fails [of inp c e ts, THEN run_top_level_succeeds [OF assms(1-9)]]
    prompt_run_get_fails [of inp c vo e ts, THEN run_top_level_succeeds [OF assms(1-9)]]
    prompt_run_details [of inp c vo po pv doc ts, THEN run_top_level_succeeds [OF assms(1-9)]]
    assms(10)
  by simp

text \<open>
  The three failures, each on a variant of the sample client.
\<close>

theorem interactive_failure_aborts_branch_only_witness:
  "run strokes no_versions_client [''y'', ''arn'', ''v1''] =
     Return
       \<lparr>trace = section_user strokes alice @ section_groups strokes ''alice'' alice_groups @
          section_attached ''alice'' alice_policies @
          (versions_intro ''arn'' @ version_failure ''NoSuchEntity'') @
          section_inline ''alice'' [] @ [closing],
        stdin = [''v1'']\<rparr> \<and>
   run strokes no_version_client [''y'', ''arn'', ''v1''] =
     Return
       \<lparr>trace = section_user strokes alice @ section_groups strokes ''alice'' alice_groups @
          section_attached ''alice'' alice_policies @
          (versions_listing strokes ''arn'' [alice_version] ''v1'' @
           version_failure ''NoSuchEntity'') @
          section_inline ''alice'' [] @ [closing],
        stdin = []\<rparr> \<and>
   run strokes bad_document_client [''y'', ''arn'', ''v1''] =
     Return
       \<lparr>trace = section_user strokes alice @ section_groups strokes ''alice'' alice_groups @
          section_attached ''alice'' alice_policies @
          (versions_listing strokes ''arn'' [alice_version] ''v1'' @
           version_details strokes (alice_version\<lparr>Document := Some ''%zz''\<rparr>) @
           [line ''Couldn't encode the document. Exiting...'']) @
          section_inline ''alice'' [] @ [closing],
        stdin = []\<rparr>"
  using interactive_failure_aborts_branch_only
    [where c = no_versions_client and d = "\<lparr>User = Some alice\<rparr>" and u = alice
       and n = "''alice''" and gso = "\<lparr>Groups = alice_groups\<rparr>"
       and apo = "\<lparr>AttachedPolicies = alice_policies\<rparr>" and ipo = "\<lparr>PolicyNames = []\<rparr>"
       and ts = strokes and inp = "[''y'', ''arn'', ''v1'']" and e = "''NoSuchEntity''"]
    interactive_failure_aborts_branch_only
    [where c = no_version_client and d = "\<lparr>User = Some alice\<rparr>" and u = alice
       and n = "''alice''" and gso = "\<lparr>Groups = alice_groups\<rparr>"
       and apo = "\<lparr>AttachedPolicies = alice_policies\<rparr>" and ipo = "\<lparr>PolicyNames = []\<rparr>"
       and ts = strokes and inp = "[''y'', ''arn'', ''v1'']" and e = "''NoSuchEntity''"
       and vo = "\<lparr>Versions = [alice_version]\<rparr>"]
    interactive_failure_aborts_branch_only
    [where c = bad_document_client and d = "\<lparr>User = Some alice\<rparr>" and u = alice
       and n = "''alice''" and gso = "\<lparr>Groups = alice_groups\<rparr>"
       and apo = "\<lparr>AttachedPolicies = alice_policies\<rparr>" and ipo = "\<lparr>PolicyNames = []\<rparr>"
       and ts = strokes and inp = "[''y'', ''arn'', ''v1'']" and e = "''%zz''"
       and vo = "\<lparr>Versions = [alice_version]\<rparr>"
       and po = "\<lparr>PolicyVersion = Some (alice_version\<lparr>Document := Some ''%zz''\<rparr>)\<rparr>"
       and pv = "alice_version\<lparr>Document := Some ''%zz''\<rparr>" and doc = "''%zz''"]
  by (simp add: sample_defs sample_documents)

subsection \<open>The username of the list queries\<close>

text \<open>
  Claim C9. In every run, whatever the client answers and whatever is typed, a request
  for the groups, for the attached policies or for the inline policies of a user carries
  the username of the response to the first query.
\<close>

theorem list_queries_use_GetUser_username:
  assumes "Request r \<in> set (trace (world_of (run ts c inp)))"
    and "r = ListGroupsForUserInput m \<or> r = ListAttachedUserPoliciesInput m \<or>
         r = ListUserPoliciesInput m"
  shows "\<exists>d u. iam_GetUser c = Inr d \<and> User d = Some u \<and> UserName u = Some m"
proof (cases "iam_GetUser c")
  case (Inl e)
  from assms show ?thesis
    by (auto simp: main_getuser_fails [OF Inl] section_requests)
next
  case (Inr d)
  show ?thesis
  proof (cases "user_complete d")
    case False
    from main_user_nil [OF Inr False, of ts inp] obtain evs where
      "run ts c inp = Panic \<lparr>trace = user_header @ evs, stdin = inp\<rparr>" "list_all benign evs"
      by blast
    with assms benign_events(2) [of evs r] show ?thesis
      by (auto simp: section_requests)
  next
    case True
    then obtain u n where u: "User d = Some u" "user_present u" "UserName u = Some n"
      by (rule user_complete_fields)
    from assms have "m = n"
      by (auto simp: main_user_ok [OF Inr u] section_requests stage_requests
          split: sum.splits if_splits)
    with Inr u show ?thesis by simp
  qed
qed

text \<open>
  The request for the inline policies in the run of the sample client.
\<close>

theorem list_queries_use_GetUser_username_witness:
  "Request (ListUserPoliciesInput ''alice'')
     \<in> set (trace (world_of (run strokes alice_client [''n'']))) \<and>
   (\<exists>d u. iam_GetUser alice_client = Inr d \<and> User d = Some u \<and> UserName u = Some ''alice'')"
  using list_queries_use_GetUser_username
    [where r = "ListUserPoliciesInput ''alice''" and ts = strokes and c = alice_client
       and inp = "[''n'']" and m = "''alice''"]
  by (simp add: alice_run section_requests)

subsection \<open>The closing line\<close>



subsection \<open>Nil fields\<close>

text \<open>
  Claim C8. When the fields the program dereferences are present in every response the
  client can give, no run panics: main returns. Without that, nothing protects the
  program: a nil field of the user, of a group or of an attached policy makes the run
  panic.
\<close>

theorem complete_responses_never_panic:
  "(client_complete c \<longrightarrow> returns (run ts c inp)) \<and>
   (iam_GetUser c = Inr d \<and> \<not> user_complete d \<longrightarrow> \<not> returns (run ts c inp)) \<and>
   (iam_GetUser c = Inr d \<and> User d = Some u \<and> user_present u \<and> UserName u = Some n \<and>
    iam_ListGroupsForUser c n = Inr gso \<and> \<not> list_all group_present (Groups gso) \<longrightarrow>
      \<not> returns (run ts c inp)) \<and>
   (iam_GetUser c = Inr d \<and> User d = Some u \<and> user_present u \<and> UserName u = Some n \<and>
    iam_ListGroupsForUser c n = Inr gso \<and> list_all group_present (Groups gso) \<and>
    iam_ListAttachedUserPolicies c n = Inr apo \<and>
    \<not> list_all policy_present (AttachedPolicies apo) \<longrightarrow>
      \<not> returns (run ts c inp))"
proof (intro conjI impI)
  assume complete: "client_complete c"
  show "returns (run ts c inp)"
  proof (cases "iam_GetUser c")
    case (Inl e)
    then show ?thesis by (simp add: main_getuser_fails)
  next
    case (Inr d')
    with complete have "user_complete d'" by (simp add: client_complete_def)
    then obtain u' n' where u: "User d' = Some u'" "user_present u'" "UserName u' = Some n'"
      by (rule user_complete_fields)
    from complete have
      "\<And>gso. iam_ListGroupsForUser c n' = Inr gso \<Longrightarrow> list_all group_present (Groups gso)"
      "\<And>apo. iam_ListAttachedUserPolicies c n' = Inr apo \<Longrightarrow>
         list_all policy_present (AttachedPolicies apo)"
      by (auto simp: client_complete_def split: sum.splits)
    with prompt_run_properties [of ts c inp] complete show ?thesis
      by (auto simp: main_user_ok [OF Inr u] split: sum.splits)
  qed
next
  assume "iam_GetUser c = Inr d \<and> \<not> user_complete d"
  with main_user_nil [of c d ts inp] show "\<not> returns (run ts c inp)"
    by auto
next
  assume "iam_GetUser c = Inr d \<and> User d = Some u \<and> user_present u \<and> UserName u = Some n \<and>
    iam_ListGroupsForUser c n = Inr gso \<and> \<not> list_all group_present (Groups gso)"
  then show "\<not> returns (run ts c inp)"
    by (simp add: main_user_ok [of c d u n])
next
  assume "iam_GetUser c = Inr d \<and> User d = Some u \<and> user_present u \<and> UserName u = Some n \<and>
    iam_ListGroupsForUser c n = Inr gso \<and> list_all group_present (Groups gso) \<and>
    iam_ListAttachedUserPolicies c n = Inr apo \<and>
    \<not> list_all policy_present (AttachedPolicies apo)"
  then show "\<not> returns (run ts c inp)"
    by (simp add: main_user_ok [of c d u n])
qed

text \<open>
  The sample client is complete and its run returns; each of three clients with one
  nil field makes the run panic.
\<close>

theorem complete_responses_never_panic_witness:
  "client_complete alice_client \<and>
   returns (run strokes alice_client [''y'', ''arn'', ''v1'']) \<and>
   \<not> returns (run strokes nil_user_client [''n'']) \<and>
   \<not> returns (run strokes nil_group_client [''n'']) \<and>
   \<not> returns (run strokes nil_policy_client [''n''])"
  using complete_responses_never_panic
    [where c = alice_client and ts = strokes and inp = "[''y'', ''arn'', ''v1'']"
       and d = "\<lparr>User = Some alice\<rparr>" and u = alice and n = "''alice''"
       and gso = "\<lparr>Groups = alice_groups\<rparr>" and apo = "\<lparr>AttachedPolicies = alice_policies\<rparr>"]
    complete_responses_never_panic
    [where c = nil_user_client and ts = strokes and inp = "[''n'']"
       and d = "\<lparr>User = Some (alice\<lparr>UserId := None\<rparr>)\<rparr>"  and u = alice and n = "''alice''"
       and gso = "\<lparr>Groups = alice_groups\<rparr>" and apo = "\<lparr>AttachedPolicies = alice_policies\<rparr>"]
    complete_responses_never_panic
    [where c = nil_group_client and ts = strokes and inp = "[''n'']"
       and d = "\<lparr>User = Some alice\<rparr>" and u = alice and n = "''alice''"
       and gso = "\<lparr>Groups =
                    [\<lparr>GroupName = Some ''admins'', Group_Arn = None, GroupId = Some ''AGPA1'',
                      Group_CreateDate = Some 1\<rparr>]\<rparr>"
       and apo = "\<lparr>AttachedPolicies = alice_policies\<rparr>"]
    complete_responses_never_panic
    [where c = nil_policy_client and ts = strokes and inp = "[''n'']"
       and d = "\<lparr>User = Some alice\<rparr>" and u = alice and n = "''alice''"
       and gso = "\<lparr>Groups = alice_groups\<rparr>"
       and apo = "\<lparr>AttachedPolicies = [\<lparr>PolicyName = None, PolicyArn = Some ''arn''\<rparr>]\<rparr>"]
  by (simp add: sample_defs client_complete_def user_complete_def document_complete_def)

end
